theory Spec2Isabelle
  imports Complex_Main "HOL-Library.Sublist" "HOL-Library.Multiset"
begin

section \<open>Dynamic values and helper functions of the tool layer\<close>

text \<open>
  Tool inputs are Go values of type \<^verbatim>\<open>map[string]any\<close> decoded from JSON. A value of
  type \<^verbatim>\<open>any\<close> is modelled by the datatype below: a Go map is an association list
  read with \<open>map_of\<close>, a slice is a list. A finite \<^verbatim>\<open>float64\<close> is the rational
  number it denotes (JSON numbers carry neither NaN nor infinities); Go's \<^verbatim>\<open>int\<close>
  and \<^verbatim>\<open>int64\<close> are integers.
\<close>

datatype any =
    ANil
  | AStr string
  | ABool bool
  | AFloat rat
  | AInt int
  | AInt64 int
  | AList "any list"
  | AMap "(string \<times> any) list"

type_synonym args = "(string \<times> any) list"

text \<open>Indexing a Go map: a missing key yields the nil interface value.\<close>

definition index_map :: "args \<Rightarrow> string \<Rightarrow> any" where
  "index_map m k = (case map_of m k of Some v \<Rightarrow> v | None \<Rightarrow> ANil)"

definition NL :: string where
  "NL = [CHR 0x0A]"

text \<open>Decimal rendering of an integer, as \<^verbatim>\<open>%d\<close> prints it.\<close>

fun digits :: "nat \<Rightarrow> string" where
  "digits n = (if n < 10 then [''0123456789'' ! n]
               else digits (n div 10) @ [''0123456789'' ! (n mod 10)])"

declare digits.simps [simp del]

definition itoa :: "int \<Rightarrow> string" where
  "itoa i = (if i < 0 then ''-'' @ digits (nat (- i)) else digits (nat i))"

fun Join :: "string list \<Rightarrow> string \<Rightarrow> string" where
  "Join [] sep = ''''"
| "Join [x] sep = x"
| "Join (x # y # ys) sep = x @ sep @ Join (y # ys) sep"

section \<open>Node types, requests and results\<close>

record Fact =
  ID :: string
  Content :: string
  Category :: string
  Confidence :: rat
  SourceAgent :: string
  SourceConversation :: string
  Valid :: bool
  CreatedAt :: int
  UpdatedAt :: int

record Decision =
  ID :: string
  Title :: string
  Rationale :: string
  Alternatives :: string
  Context :: string
  SourceAgent :: string
  SourceConversation :: string
  Status :: string
  CreatedAt :: int
  UpdatedAt :: int

record Entity =
  ID :: string
  Name :: string
  Kind :: string
  Description :: string
  SourceAgent :: string
  CreatedAt :: int
  UpdatedAt :: int

record Event =
  ID :: string
  Title :: string
  Description :: string
  EventDate :: string
  SourceAgent :: string
  SourceConversation :: string
  CreatedAt :: int
  UpdatedAt :: int

record Topic =
  ID :: string
  Name :: string
  Description :: string
  CreatedAt :: int
  UpdatedAt :: int

record StoreFactRequest =
  Content :: string
  Category :: string
  Confidence :: rat
  SourceAgent :: string
  SourceConversation :: string

record StoreDecisionRequest =
  Title :: string
  Rationale :: string
  Alternatives :: string
  Context :: string
  SourceAgent :: string
  SourceConversation :: string

record StoreEntityRequest =
  Name :: string
  Kind :: string
  Description :: string
  SourceAgent :: string

record StoreEventRequest =
  Title :: string
  Description :: string
  EventDate :: string
  SourceAgent :: string
  SourceConversation :: string

record StoreTopicRequest =
  Name :: string
  Description :: string

text \<open>A value of one of the five node structs, as \<^verbatim>\<open>any\<close> carries it.\<close>

datatype node =
    NFact Fact
  | NDecision Decision
  | NEntity Entity
  | NEvent Event
  | NTopic Topic

record SearchResult =
  NodeType :: string
  ID :: string
  Content :: string
  Detail :: string
  Distance :: rat
  Metadata :: "node option"

record ListOptions =
  NodeType :: string
  Category :: string
  Kind :: string
  Status :: string
  TopicName :: string
  ValidOnly :: bool
  Limit :: int
  Offset :: int
  SortBy :: string
  SortOrder :: string

record ToolResult =
  Text :: string
  IsError :: bool

text \<open>
  Modelled from the spec: the constructors \<^verbatim>\<open>NewError\<close> and \<^verbatim>\<open>NewResult\<close> of
  \<^verbatim>\<open>ToolResult\<close> are not among the sources. A tool-level failure is a response
  carrying \<open>isError = true\<close> and the message as its content; a success carries the
  text with \<open>isError = false\<close>.
\<close>

definition NewError :: "string \<Rightarrow> ToolResult" where
  "NewError msg = \<lparr>Text = msg, IsError = True\<rparr>"

definition NewResult :: "string \<Rightarrow> ToolResult" where
  "NewResult msg = \<lparr>Text = msg, IsError = False\<rparr>"

text \<open>
  The argument readers \<^verbatim>\<open>GetStringArg\<close> and \<^verbatim>\<open>GetFloat64Arg\<close>, the
  string helper \<^verbatim>\<open>Truncate\<close>, and the routines behind \<^verbatim>\<open>%q\<close>,
  \<^verbatim>\<open>%.1f\<close>, \<^verbatim>\<open>%v\<close>, \<^verbatim>\<open>strings.ToLower\<close>, \<^verbatim>\<open>escapeDatalog\<close>,
  \<^verbatim>\<open>nodeTypeToTable\<close> and \<^verbatim>\<open>sort.Slice\<close> are called by the functions below
  but their bodies are not among the sources. They are parameters of the model: every
  function that calls one of them takes the record \<open>h\<close>.
\<close>

record helpers =
  GetStringArg :: "args \<Rightarrow> string \<Rightarrow> string \<Rightarrow> string"
  GetFloat64Arg :: "args \<Rightarrow> string \<Rightarrow> rat \<Rightarrow> rat"
  Truncate :: "string \<Rightarrow> int \<Rightarrow> string"
  Sprintf_q :: "string \<Rightarrow> string"
  Sprintf_f1 :: "rat \<Rightarrow> string"
  Sprintf_v :: "any \<Rightarrow> string"
  ToLower :: "string \<Rightarrow> string"
  escapeDatalog :: "string \<Rightarrow> string"
  nodeTypeToTable :: "string \<Rightarrow> string"
  sort_Slice :: "(SearchResult \<Rightarrow> SearchResult \<Rightarrow> bool) \<Rightarrow> SearchResult list \<Rightarrow> SearchResult list"

text \<open>
  The interface \<^verbatim>\<open>Querier\<close> is a record of operations over a client state \<open>'s\<close>:
  each takes the state and returns its result with the new state. A Go \<^verbatim>\<open>error\<close>
  is its message; \<open>(*T, error)\<close> is a sum, \<open>error\<close> alone an option.
\<close>

record 's Querier =
  StoreFact :: "StoreFactRequest \<Rightarrow> 's \<Rightarrow> (string + Fact) \<times> 's"
  StoreDecision :: "StoreDecisionRequest \<Rightarrow> 's \<Rightarrow> (string + Decision) \<times> 's"
  StoreEntity :: "StoreEntityRequest \<Rightarrow> 's \<Rightarrow> (string + Entity) \<times> 's"
  StoreEvent :: "StoreEventRequest \<Rightarrow> 's \<Rightarrow> (string + Event) \<times> 's"
  StoreTopic :: "StoreTopicRequest \<Rightarrow> 's \<Rightarrow> (string + Topic) \<times> 's"
  InvalidateFact :: "string \<Rightarrow> string \<Rightarrow> string \<Rightarrow> 's \<Rightarrow> string option \<times> 's"
  AddRelationship :: "string \<Rightarrow> (string \<rightharpoonup> string) \<Rightarrow> 's \<Rightarrow> string option \<times> 's"
  IncrementCounter :: "string \<Rightarrow> 's \<Rightarrow> string option \<times> 's"

section \<open>The store tool\<close>

definition validFactCategories :: "string \<Rightarrow> bool" where
  "validFactCategories c \<longleftrightarrow>
     c \<in> set [''personal'', ''professional'', ''preference'',
               ''technical'', ''relationship'', ''general'']"

definition validEntityKinds :: "string \<Rightarrow> bool" where
  "validEntityKinds k \<longleftrightarrow>
     k \<in> set [''person'', ''company'', ''project'', ''product'',
               ''technology'', ''place'', ''other'']"

definition validEdgeTypes :: "string \<Rightarrow> bool" where
  "validEdgeTypes e \<longleftrightarrow>
     e \<in> set [''fact_entity'', ''fact_topic'', ''decision_topic'',
               ''decision_entity'', ''event_decision'', ''entity_topic'']"

definition storeFact ::
  "helpers \<Rightarrow> 's Querier \<Rightarrow> args \<Rightarrow> string \<Rightarrow> string \<Rightarrow> 's \<Rightarrow> (string + Fact) \<times> 's" where
  "storeFact h client args sourceAgent sourceConversation s =
     (let content = GetStringArg h args ''content'' '''' in
      if content = '''' then (Inl ''content is required for fact type'', s)
      else
        let category0 = GetStringArg h args ''category'' ''general'';
            category = (if \<not> validFactCategories category0 then ''general'' else category0);
            confidence0 = GetFloat64Arg h args ''confidence'' (8 / 10);
            confidence = (if confidence0 \<le> 0 \<or> confidence0 > 1 then 8 / 10 else confidence0)
        in StoreFact client
             \<lparr>StoreFactRequest.Content = content,
              StoreFactRequest.Category = category,
              StoreFactRequest.Confidence = confidence,
              StoreFactRequest.SourceAgent = sourceAgent,
              StoreFactRequest.SourceConversation = sourceConversation\<rparr> s)"

definition storeDecision ::
  "helpers \<Rightarrow> 's Querier \<Rightarrow> args \<Rightarrow> string \<Rightarrow> string \<Rightarrow> 's \<Rightarrow> (string + Decision) \<times> 's" where
  "storeDecision h client args sourceAgent sourceConversation s =
     (let title = GetStringArg h args ''title'' '''' in
      if title = '''' then (Inl ''title is required for decision type'', s)
      else
        let rationale = GetStringArg h args ''rationale'' '''' in
        if rationale = '''' then (Inl ''rationale is required for decision type'', s)
        else StoreDecision client
               \<lparr>StoreDecisionRequest.Title = title,
                StoreDecisionRequest.Rationale = rationale,
                StoreDecisionRequest.Alternatives = GetStringArg h args ''alternatives'' ''[]'',
                StoreDecisionRequest.Context = GetStringArg h args ''context'' '''',
                StoreDecisionRequest.SourceAgent = sourceAgent,
                StoreDecisionRequest.SourceConversation = sourceConversation\<rparr> s)"

definition storeEntity ::
  "helpers \<Rightarrow> 's Querier \<Rightarrow> args \<Rightarrow> string \<Rightarrow> 's \<Rightarrow> (string + Entity) \<times> 's" where
  "storeEntity h client args sourceAgent s =
     (let name = GetStringArg h args ''name'' '''' in
      if name = '''' then (Inl ''name is required for entity type'', s)
      else
        let kind = GetStringArg h args ''kind'' '''' in
        if kind = '''' then (Inl ''kind is required for entity type'', s)
        else if \<not> validEntityKinds kind then
          (Inl (''invalid entity kind '' @ Sprintf_q h kind
                @ ''. Must be one of: person, company, project, product, technology, place, other''), s)
        else StoreEntity client
               \<lparr>StoreEntityRequest.Name = name,
                StoreEntityRequest.Kind = kind,
                StoreEntityRequest.Description = GetStringArg h args ''description'' '''',
                StoreEntityRequest.SourceAgent = sourceAgent\<rparr> s)"

definition storeEvent ::
  "helpers \<Rightarrow> 's Querier \<Rightarrow> args \<Rightarrow> string \<Rightarrow> string \<Rightarrow> 's \<Rightarrow> (string + Event) \<times> 's" where
  "storeEvent h client args sourceAgent sourceConversation s =
     (let title = GetStringArg h args ''title'' '''' in
      if title = '''' then (Inl ''title is required for event type'', s)
      else
        let eventDate = GetStringArg h args ''event_date'' '''' in
        if eventDate = '''' then (Inl ''event_date is required for event type'', s)
        else StoreEvent client
               \<lparr>StoreEventRequest.Title = title,
                StoreEventRequest.Description = GetStringArg h args ''description'' '''',
                StoreEventRequest.EventDate = eventDate,
                StoreEventRequest.SourceAgent = sourceAgent,
                StoreEventRequest.SourceConversation = sourceConversation\<rparr> s)"

definition storeTopic ::
  "helpers \<Rightarrow> 's Querier \<Rightarrow> args \<Rightarrow> 's \<Rightarrow> (string + Topic) \<times> 's" where
  "storeTopic h client args s =
     (let name = GetStringArg h args ''name'' '''' in
      if name = '''' then (Inl ''name is required for topic type'', s)
      else StoreTopic client
             \<lparr>StoreTopicRequest.Name = ToLower h name,
              StoreTopicRequest.Description = GetStringArg h args ''description'' ''''\<rparr> s)"

text \<open>
  \<^verbatim>\<open>storeNode\<close> returns the triple (node id, summary, error) of the source; an
  unknown type yields the empty id with no error and touches no client operation.
\<close>

definition storeNode ::
  "helpers \<Rightarrow> 's Querier \<Rightarrow> args \<Rightarrow> string \<Rightarrow> 's \<Rightarrow> (string \<times> string \<times> string option) \<times> 's" where
  "storeNode h client args nodeType s =
     (let sourceAgent = GetStringArg h args ''source_agent'' ''unknown'';
          sourceConversation = GetStringArg h args ''source_conversation'' ''''
      in
      if nodeType = ''fact'' then
        (case storeFact h client args sourceAgent sourceConversation s of
           (Inl err, s') \<Rightarrow> (('''', '''', Some err), s')
         | (Inr result, s') \<Rightarrow>
             ((Fact.ID result,
               ''Content: '' @ Sprintf_q h (Truncate h (Fact.Content result) 100) @ NL
               @ ''Category: '' @ Fact.Category result
               @ '' | Confidence: '' @ Sprintf_f1 h (Fact.Confidence result)
               @ '' | Source: '' @ Fact.SourceAgent result, None), s'))
      else if nodeType = ''decision'' then
        (case storeDecision h client args sourceAgent sourceConversation s of
           (Inl err, s') \<Rightarrow> (('''', '''', Some err), s')
         | (Inr result, s') \<Rightarrow>
             ((Decision.ID result,
               ''Title: '' @ Sprintf_q h (Truncate h (Decision.Title result) 100) @ NL
               @ ''Rationale: '' @ Truncate h (Decision.Rationale result) 100 @ NL
               @ ''Status: '' @ Decision.Status result
               @ '' | Source: '' @ Decision.SourceAgent result, None), s'))
      else if nodeType = ''entity'' then
        (case storeEntity h client args sourceAgent s of
           (Inl err, s') \<Rightarrow> (('''', '''', Some err), s')
         | (Inr result, s') \<Rightarrow>
             (let summary0 = ''Name: '' @ Sprintf_q h (Entity.Name result) @ NL
                    @ ''Kind: '' @ Entity.Kind result
                    @ '' | Source: '' @ Entity.SourceAgent result;
                  summary = (if Entity.Description result \<noteq> ''''
                             then summary0 @ NL @ ''Description: ''
                                  @ Truncate h (Entity.Description result) 100
                             else summary0)
              in ((Entity.ID result, summary, None), s')))
      else if nodeType = ''event'' then
        (case storeEvent h client args sourceAgent sourceConversation s of
           (Inl err, s') \<Rightarrow> (('''', '''', Some err), s')
         | (Inr result, s') \<Rightarrow>
             ((Event.ID result,
               ''Title: '' @ Sprintf_q h (Truncate h (Event.Title result) 100) @ NL
               @ ''Date: '' @ Event.EventDate result
               @ '' | Source: '' @ Event.SourceAgent result, None), s'))
      else if nodeType = ''topic'' then
        (case storeTopic h client args s of
           (Inl err, s') \<Rightarrow> (('''', '''', Some err), s')
         | (Inr result, s') \<Rightarrow>
             (let summary0 = ''Name: '' @ Sprintf_q h (Topic.Name result);
                  summary = (if Topic.Description result \<noteq> ''''
                             then summary0 @ NL @ ''Description: ''
                                  @ Truncate h (Topic.Description result) 100
                             else summary0)
              in ((Topic.ID result, summary, None), s')))
      else (('''', '''', None), s))"

text \<open>
  \<^verbatim>\<open>handleInvalidation\<close> returns the pair (tool error, message) of the source.
\<close>

definition handleInvalidation ::
  "helpers \<Rightarrow> 's Querier \<Rightarrow> args \<Rightarrow> string \<Rightarrow> 's \<Rightarrow> (ToolResult option \<times> string) \<times> 's" where
  "handleInvalidation h client args nodeID s =
     (let invalidates = GetStringArg h args ''invalidates'' '''' in
      if invalidates = '''' then ((None, ''''), s)
      else if \<not> prefix ''fact:'' invalidates then
        ((Some (NewError (''invalidates must reference a fact ID (got ''
                          @ Sprintf_q h invalidates @ '')'')), ''''), s)
      else
        let reason = ''Replaced by '' @ nodeID in
        (case InvalidateFact client invalidates nodeID reason s of
           (Some err, s') \<Rightarrow>
             ((Some (NewError (''Failed to invalidate fact '' @ invalidates @ '': '' @ err)), ''''), s')
         | (None, s') \<Rightarrow>
             ((None, NL @ ''Invalidated: ['' @ invalidates @ '']'' @ NL @ ''Reason: '' @ reason), s')))"

definition buildEdgeFields ::
  "helpers \<Rightarrow> string \<Rightarrow> string \<Rightarrow> string \<Rightarrow> args \<Rightarrow> (string \<rightharpoonup> string)" where
  "buildEdgeFields h edgeType sourceNodeID targetID relMap =
     (if edgeType = ''fact_entity'' then
        [''fact_id'' \<mapsto> sourceNodeID, ''entity_id'' \<mapsto> targetID]
      else if edgeType = ''fact_topic'' then
        [''fact_id'' \<mapsto> sourceNodeID, ''topic_id'' \<mapsto> targetID]
      else if edgeType = ''decision_topic'' then
        [''decision_id'' \<mapsto> sourceNodeID, ''topic_id'' \<mapsto> targetID]
      else if edgeType = ''decision_entity'' then
        (let fields = [''decision_id'' \<mapsto> sourceNodeID, ''entity_id'' \<mapsto> targetID];
             role = GetStringArg h relMap ''role'' ''''
         in if role \<noteq> '''' then fields(''role'' \<mapsto> role) else fields)
      else if edgeType = ''event_decision'' then
        [''event_id'' \<mapsto> sourceNodeID, ''decision_id'' \<mapsto> targetID]
      else if edgeType = ''entity_topic'' then
        [''entity_id'' \<mapsto> sourceNodeID, ''topic_id'' \<mapsto> targetID]
      else Map.empty)"

text \<open>
  The loop of \<^verbatim>\<open>storeRelationships\<close> over the relationship slice; \<open>sb\<close> is the
  string builder.
\<close>

fun storeRelationships_loop ::
  "helpers \<Rightarrow> 's Querier \<Rightarrow> string \<Rightarrow> any list \<Rightarrow> string \<Rightarrow> 's \<Rightarrow> string \<times> 's" where
  "storeRelationships_loop h client sourceNodeID [] sb s = (sb, s)"
| "storeRelationships_loop h client sourceNodeID (rel # rest) sb s =
     (case rel of
        AMap relMap \<Rightarrow>
          (let edgeType = GetStringArg h relMap ''edge'' '''';
               targetID = GetStringArg h relMap ''target_id'' ''''
           in
           if edgeType = '''' \<or> targetID = '''' then
             storeRelationships_loop h client sourceNodeID rest sb s
           else if \<not> validEdgeTypes edgeType then
             storeRelationships_loop h client sourceNodeID rest
               (sb @ ''- Skipped invalid edge type: '' @ edgeType @ NL) s
           else
             let fields = buildEdgeFields h edgeType sourceNodeID targetID relMap;
                 tableName = ''mie_'' @ edgeType
             in (case AddRelationship client tableName fields s of
                   (Some err, s') \<Rightarrow>
                     storeRelationships_loop h client sourceNodeID rest
                       (sb @ ''- Failed '' @ edgeType @ '' -> ['' @ targetID @ '']: '' @ err @ NL) s'
                 | (None, s') \<Rightarrow>
                     storeRelationships_loop h client sourceNodeID rest
                       (sb @ ''- '' @ edgeType @ '' -> ['' @ targetID @ '']'' @ NL) s'))
      | _ \<Rightarrow> storeRelationships_loop h client sourceNodeID rest sb s)"

definition storeRelationships ::
  "helpers \<Rightarrow> 's Querier \<Rightarrow> string \<Rightarrow> any \<Rightarrow> 's \<Rightarrow> string \<times> 's" where
  "storeRelationships h client sourceNodeID rels s =
     (case rels of
        AList relSlice \<Rightarrow> storeRelationships_loop h client sourceNodeID relSlice '''' s
      | _ \<Rightarrow> ('''', s))"

definition Store :: "helpers \<Rightarrow> 's Querier \<Rightarrow> args \<Rightarrow> 's \<Rightarrow> ToolResult \<times> 's" where
  "Store h client args s =
     (let nodeType = GetStringArg h args ''type'' '''' in
      if nodeType = '''' then (NewError ''Missing required parameter: type'', s)
      else
        (case storeNode h client args nodeType s of
           ((nodeID, summary, Some err), s1) \<Rightarrow>
             (NewError (''Failed to store '' @ nodeType @ '': '' @ err), s1)
         | ((nodeID, summary, None), s1) \<Rightarrow>
             if nodeID = '''' then
               (NewError (''Invalid type '' @ Sprintf_q h nodeType
                          @ ''. Must be one of: fact, decision, entity, event, topic''), s1)
             else
               (case handleInvalidation h client args nodeID s1 of
                  ((Some toolErr, invalidationMsg), s2) \<Rightarrow> (toolErr, s2)
                | ((None, invalidationMsg), s2) \<Rightarrow>
                    (let (relMsg, s3) =
                           (case map_of args ''relationships'' of
                              None \<Rightarrow> ('''', s2)
                            | Some rels \<Rightarrow>
                                if rels \<noteq> ANil then storeRelationships h client nodeID rels s2
                                else ('''', s2));
                         (counterErr, s4) = IncrementCounter client ''total_stores'' s3;
                         output0 = ''Stored '' @ nodeType @ '' ['' @ nodeID @ '']'' @ NL @ summary;
                         output1 = (if relMsg \<noteq> ''''
                                    then output0 @ NL @ NL @ ''Relationships created:'' @ NL @ relMsg
                                    else output0);
                         output = (if invalidationMsg \<noteq> ''''
                                   then output1 @ NL @ invalidationMsg else output1)
                     in (NewResult output, s4)))))"

section \<open>The bulk store tool\<close>

definition maxBulkItems :: int where
  "maxBulkItems = 50"

record bulkItem =
  nodeID :: string
  nodeType :: string
  summary :: string

text \<open>
  Go's conversion \<^verbatim>\<open>int(val)\<close> of a \<^verbatim>\<open>float64\<close> discards the fraction
  (truncation toward zero) of a value in the range of \<^verbatim>\<open>int\<close>.
\<close>

definition float64_to_int :: "rat \<Rightarrow> int" where
  "float64_to_int x = (if 0 \<le> x then \<lfloor>x\<rfloor> else \<lceil>x\<rceil>)"

definition toInt :: "any \<Rightarrow> int" where
  "toInt v = (case v of AFloat val \<Rightarrow> float64_to_int val
                      | AInt val \<Rightarrow> val
                      | AInt64 val \<Rightarrow> val
                      | _ \<Rightarrow> - 1)"

text \<open>The loop of \<^verbatim>\<open>resolveBatchRefs\<close>; \<open>resolved\<close> is the slice being appended to.\<close>

fun resolveBatchRefs_loop :: "any list \<Rightarrow> bulkItem list \<Rightarrow> any list \<Rightarrow> any list" where
  "resolveBatchRefs_loop [] stored resolved = resolved"
| "resolveBatchRefs_loop (rel # rest) stored resolved =
     (case rel of
        AMap relMap \<Rightarrow>
          (case map_of relMap ''target_ref'' of
             Some refIdx \<Rightarrow>
               (let idx = toInt refIdx in
                if idx < 0 \<or> idx \<ge> int (length stored) \<or> nodeID (stored ! nat idx) = '''' then
                  resolveBatchRefs_loop rest stored resolved
                else
                  resolveBatchRefs_loop rest stored
                    (resolved @ [AMap [(''edge'', index_map relMap ''edge''),
                                       (''target_id'', AStr (nodeID (stored ! nat idx))),
                                       (''role'', index_map relMap ''role'')]]))
           | None \<Rightarrow> resolveBatchRefs_loop rest stored (resolved @ [AMap relMap]))
      | _ \<Rightarrow> resolveBatchRefs_loop rest stored resolved)"

definition resolveBatchRefs :: "any \<Rightarrow> bulkItem list \<Rightarrow> any list" where
  "resolveBatchRefs rels stored =
     (case rels of
        AList relSlice \<Rightarrow> resolveBatchRefs_loop relSlice stored []
      | _ \<Rightarrow> [])"

text \<open>The counter map \<^verbatim>\<open>typeCounts\<close>, a \<^verbatim>\<open>map[string]int\<close>.\<close>

definition typeCounts_get :: "(string \<times> int) list \<Rightarrow> string \<Rightarrow> int" where
  "typeCounts_get tc k = (case map_of tc k of Some c \<Rightarrow> c | None \<Rightarrow> 0)"

definition typeCounts_incr :: "(string \<times> int) list \<Rightarrow> string \<Rightarrow> (string \<times> int) list" where
  "typeCounts_incr tc k =
     (if k \<in> fst ` set tc
      then map (\<lambda>(k', c). if k' = k then (k', c + 1) else (k', c)) tc
      else tc @ [(k, 1)])"

text \<open>Phase 1: store all nodes and collect their ids; \<open>i\<close> is the loop index.\<close>

fun BulkStore_phase1 ::
  "helpers \<Rightarrow> 's Querier \<Rightarrow> any list \<Rightarrow> nat \<Rightarrow> bulkItem list \<Rightarrow> string list
     \<Rightarrow> (string \<times> int) list \<Rightarrow> 's
     \<Rightarrow> (bulkItem list \<times> string list \<times> (string \<times> int) list) \<times> 's" where
  "BulkStore_phase1 h client [] i stored errors typeCounts s = ((stored, errors, typeCounts), s)"
| "BulkStore_phase1 h client (raw # rest) i stored errors typeCounts s =
     (case raw of
        AMap itemArgs \<Rightarrow>
          (let ntype = GetStringArg h itemArgs ''type'' '''' in
           if ntype = '''' then
             BulkStore_phase1 h client rest (i + 1) stored
               (errors @ [''item['' @ itoa (int i) @ '']: missing required parameter: type''])
               typeCounts s
           else
             (case storeNode h client itemArgs ntype s of
                ((nid, summ, Some err), s') \<Rightarrow>
                  BulkStore_phase1 h client rest (i + 1) stored
                    (errors @ [''item['' @ itoa (int i) @ ''] ('' @ ntype @ ''): '' @ err])
                    typeCounts s'
              | ((nid, summ, None), s') \<Rightarrow>
                  if nid = '''' then
                    BulkStore_phase1 h client rest (i + 1) stored
                      (errors @ [''item['' @ itoa (int i) @ '']: invalid type '' @ Sprintf_q h ntype])
                      typeCounts s'
                  else
                    BulkStore_phase1 h client rest (i + 1)
                      (stored[i := \<lparr>nodeID = nid, nodeType = ntype, summary = summ\<rparr>])
                      errors (typeCounts_incr typeCounts ntype) s'))
      | _ \<Rightarrow>
          BulkStore_phase1 h client rest (i + 1) stored
            (errors @ [''item['' @ itoa (int i) @ '']: not a valid object'']) typeCounts s)"

text \<open>
  Phase 2: invalidations and relationships of the stored items. The fourth argument is
  the list of indices still to visit.
\<close>

fun BulkStore_phase2 ::
  "helpers \<Rightarrow> 's Querier \<Rightarrow> any list \<Rightarrow> bulkItem list \<Rightarrow> nat list \<Rightarrow> string list
     \<Rightarrow> string list \<Rightarrow> 's \<Rightarrow> (string list \<times> string list) \<times> 's" where
  "BulkStore_phase2 h client itemSlice stored [] errors relMessages s =
     ((errors, relMessages), s)"
| "BulkStore_phase2 h client itemSlice stored (i # rest) errors relMessages s =
     (let item = stored ! i in
      if nodeID item = '''' then
        BulkStore_phase2 h client itemSlice stored rest errors relMessages s
      else
        let itemArgs = (case itemSlice ! i of AMap m \<Rightarrow> m | _ \<Rightarrow> []) in
        (case handleInvalidation h client itemArgs (nodeID item) s of
           ((toolErr, invalidationMsg), s1) \<Rightarrow>
             (let errors1 = (case toolErr of
                               Some te \<Rightarrow>
                                 errors @ [''item['' @ itoa (int i) @ ''] invalidation: '' @ Text te]
                             | None \<Rightarrow> errors);
                  relMessages1 = (case toolErr of
                                    Some te \<Rightarrow> relMessages
                                  | None \<Rightarrow>
                                      if invalidationMsg \<noteq> ''''
                                      then relMessages @ [''item['' @ itoa (int i) @ '']'' @ invalidationMsg]
                                      else relMessages)
              in
              (case map_of itemArgs ''relationships'' of
                 None \<Rightarrow> BulkStore_phase2 h client itemSlice stored rest errors1 relMessages1 s1
               | Some rels \<Rightarrow>
                   if rels \<noteq> ANil then
                     (let resolved = resolveBatchRefs rels stored in
                      (case storeRelationships h client (nodeID item) (AList resolved) s1 of
                         (msg, s2) \<Rightarrow>
                           if msg \<noteq> '''' then
                             BulkStore_phase2 h client itemSlice stored rest errors1
                               (relMessages1 @ [''item['' @ itoa (int i) @ '']:'' @ NL @ msg]) s2
                           else
                             BulkStore_phase2 h client itemSlice stored rest errors1 relMessages1 s2))
                   else BulkStore_phase2 h client itemSlice stored rest errors1 relMessages1 s1))))"

fun IncrementCounter_times :: "'s Querier \<Rightarrow> nat \<Rightarrow> 's \<Rightarrow> 's" where
  "IncrementCounter_times client 0 s = s"
| "IncrementCounter_times client (Suc n) s =
     IncrementCounter_times client n (snd (IncrementCounter client ''total_stores'' s))"

text \<open>Phase 3: the output text.\<close>

definition BulkStore_output ::
  "bulkItem list \<Rightarrow> string list \<Rightarrow> string list \<Rightarrow> (string \<times> int) list \<Rightarrow> string" where
  "BulkStore_output stored errors relMessages typeCounts =
     (let parts = concat (map (\<lambda>nt. let c = typeCounts_get typeCounts nt in
                                      if c > 0 then [itoa c @ '' '' @ nt @ ''s''] else [])
                              [''fact'', ''decision'', ''entity'', ''event'', ''topic'']);
          totalStored = sum_list (map snd typeCounts);
          sb0 = ''Stored '' @ itoa totalStored @ '' items: '' @ Join parts '', '' @ NL;
          sb1 = sb0 @ NL @ ''IDs:'' @ NL
                @ concat (map (\<lambda>(i, item).
                                 if nodeID item \<noteq> ''''
                                 then ''  ['' @ itoa (int i) @ ''] '' @ nodeType item
                                      @ '' ['' @ nodeID item @ '']'' @ NL
                                 else '''')
                              (zip [0 ..< length stored] stored));
          sb2 = (if length relMessages > 0
                 then sb1 @ NL @ ''Relationships:'' @ NL @ concat relMessages
                 else sb1);
          sb3 = (if length errors > 0
                 then sb2 @ NL @ ''Errors ('' @ itoa (int (length errors)) @ ''):'' @ NL
                      @ concat (map (\<lambda>e. ''  - '' @ e @ NL) errors)
                 else sb2)
      in sb3)"

definition BulkStore :: "helpers \<Rightarrow> 's Querier \<Rightarrow> args \<Rightarrow> 's \<Rightarrow> ToolResult \<times> 's" where
  "BulkStore h client args s =
     (case map_of args ''items'' of
        None \<Rightarrow> (NewError ''Missing required parameter: items'', s)
      | Some rawItems \<Rightarrow>
          if rawItems = ANil then (NewError ''Missing required parameter: items'', s)
          else
            (case rawItems of
               AList itemSlice \<Rightarrow>
                 if length itemSlice = 0 then (NewError ''items must be a non-empty array'', s)
                 else if int (length itemSlice) > maxBulkItems then
                   (NewError (''Too many items: '' @ itoa (int (length itemSlice))
                              @ '' (max '' @ itoa maxBulkItems @ '')''), s)
                 else
                   (case BulkStore_phase1 h client itemSlice 0
                           (replicate (length itemSlice)
                              \<lparr>nodeID = '''', nodeType = '''', summary = ''''\<rparr>) [] [] s of
                      ((stored, errors, typeCounts), s1) \<Rightarrow>
                        (case BulkStore_phase2 h client itemSlice stored
                                [0 ..< length stored] errors [] s1 of
                           ((errors', relMessages), s2) \<Rightarrow>
                             (NewResult (BulkStore_output stored errors' relMessages typeCounts),
                              IncrementCounter_times client
                                (nat (sum_list (map snd typeCounts))) s2)))
             | _ \<Rightarrow> (NewError ''items must be a non-empty array'', s)))"

section \<open>A helper instance and a recording client for worked examples\<close>

text \<open>
  Modelled from the spec: the bodies of the argument readers are not among the sources.
  Tool inputs arrive as unstructured property bags; the readers of this instance return
  the value stored under the key when it has the expected type and the default
  otherwise. The formatting routines of the instance are placeholders, on which no
  worked example depends. The instance serves the worked examples only; the theorems
  hold for every choice of the helper record.
\<close>

definition example_GetStringArg :: "args \<Rightarrow> string \<Rightarrow> string \<Rightarrow> string" where
  "example_GetStringArg a key defaultVal =
     (case map_of a key of Some (AStr v) \<Rightarrow> v | _ \<Rightarrow> defaultVal)"

definition example_GetFloat64Arg :: "args \<Rightarrow> string \<Rightarrow> rat \<Rightarrow> rat" where
  "example_GetFloat64Arg a key defaultVal =
     (case map_of a key of Some (AFloat v) \<Rightarrow> v | _ \<Rightarrow> defaultVal)"

text \<open>
  Insertion sort by a given strict order: the instance of \<^verbatim>\<open>sort.Slice\<close> in the
  worked examples, and the ordering step of the storage substrate below.
\<close>

fun insert_less :: "('a \<Rightarrow> 'a \<Rightarrow> bool) \<Rightarrow> 'a \<Rightarrow> 'a list \<Rightarrow> 'a list" where
  "insert_less lt x [] = [x]"
| "insert_less lt x (y # ys) = (if lt y x then y # insert_less lt x ys else x # y # ys)"

fun insertion_sort :: "('a \<Rightarrow> 'a \<Rightarrow> bool) \<Rightarrow> 'a list \<Rightarrow> 'a list" where
  "insertion_sort lt [] = []"
| "insertion_sort lt (x # xs) = insert_less lt x (insertion_sort lt xs)"

definition example_helpers :: helpers where
  "example_helpers =
     \<lparr>GetStringArg = example_GetStringArg,
      GetFloat64Arg = example_GetFloat64Arg,
      Truncate = (\<lambda>s n. take (nat n) s),
      Sprintf_q = (\<lambda>s. [CHR 0x22] @ s @ [CHR 0x22]),
      Sprintf_f1 = (\<lambda>x. ''f''),
      Sprintf_v = (\<lambda>v. ''v''),
      ToLower = (\<lambda>s. s),
      escapeDatalog = (\<lambda>s. s),
      nodeTypeToTable = (\<lambda>t. ''mie_'' @ t),
      sort_Slice = insertion_sort\<rparr>"

text \<open>
  The test double \<^verbatim>\<open>MockQuerier\<close> with its default answers; its state is the list
  of the calls it has received, in order.
\<close>

datatype call =
    CStoreFact StoreFactRequest
  | CStoreDecision StoreDecisionRequest
  | CStoreEntity StoreEntityRequest
  | CStoreEvent StoreEventRequest
  | CStoreTopic StoreTopicRequest
  | CInvalidateFact string string string
  | CAddRelationship string "string \<rightharpoonup> string"
  | CIncrementCounter string

definition MockQuerier :: "call list Querier" where
  "MockQuerier =
     \<lparr>StoreFact = (\<lambda>req s.
        (Inr \<lparr>Fact.ID = ''fact:mock0001'', Fact.Content = StoreFactRequest.Content req,
              Fact.Category = StoreFactRequest.Category req,
              Fact.Confidence = StoreFactRequest.Confidence req,
              Fact.SourceAgent = StoreFactRequest.SourceAgent req,
              Fact.SourceConversation = '''', Fact.Valid = True,
              Fact.CreatedAt = 1000, Fact.UpdatedAt = 1000\<rparr>, s @ [CStoreFact req])),
      StoreDecision = (\<lambda>req s.
        (Inr \<lparr>Decision.ID = ''dec:mock0001'', Decision.Title = StoreDecisionRequest.Title req,
              Decision.Rationale = StoreDecisionRequest.Rationale req,
              Decision.Alternatives = '''', Decision.Context = '''',
              Decision.SourceAgent = StoreDecisionRequest.SourceAgent req,
              Decision.SourceConversation = '''', Decision.Status = ''active'',
              Decision.CreatedAt = 1000, Decision.UpdatedAt = 1000\<rparr>, s @ [CStoreDecision req])),
      StoreEntity = (\<lambda>req s.
        (Inr \<lparr>Entity.ID = ''ent:mock0001'', Entity.Name = StoreEntityRequest.Name req,
              Entity.Kind = StoreEntityRequest.Kind req,
              Entity.Description = StoreEntityRequest.Description req,
              Entity.SourceAgent = StoreEntityRequest.SourceAgent req,
              Entity.CreatedAt = 1000, Entity.UpdatedAt = 1000\<rparr>, s @ [CStoreEntity req])),
      StoreEvent = (\<lambda>req s.
        (Inr \<lparr>Event.ID = ''evt:mock0001'', Event.Title = StoreEventRequest.Title req,
              Event.Description = '''', Event.EventDate = StoreEventRequest.EventDate req,
              Event.SourceAgent = StoreEventRequest.SourceAgent req,
              Event.SourceConversation = '''',
              Event.CreatedAt = 1000, Event.UpdatedAt = 1000\<rparr>, s @ [CStoreEvent req])),
      StoreTopic = (\<lambda>req s.
        (Inr \<lparr>Topic.ID = ''top:mock0001'', Topic.Name = StoreTopicRequest.Name req,
              Topic.Description = StoreTopicRequest.Description req,
              Topic.CreatedAt = 1000, Topic.UpdatedAt = 1000\<rparr>, s @ [CStoreTopic req])),
      InvalidateFact = (\<lambda>oldFactID newFactID reason s.
        (None, s @ [CInvalidateFact oldFactID newFactID reason])),
      AddRelationship = (\<lambda>edgeType fields s. (None, s @ [CAddRelationship edgeType fields])),
      IncrementCounter = (\<lambda>key s. (None, s @ [CIncrementCounter key]))\<rparr>"

text \<open>Inputs of the worked examples of the store and bulk store tools.\<close>

definition example_store_args :: args where
  "example_store_args =
     [(''type'', AStr ''fact''), (''content'', AStr ''Water freezes at 0 degrees''),
      (''invalidates'', AStr ''fact:old123''),
      (''relationships'',
         AList [AMap [(''edge'', AStr ''fact_entity''), (''target_id'', AStr ''ent:water'')]])]"

definition failing_invalidate_client :: "call list Querier" where
  "failing_invalidate_client =
     MockQuerier\<lparr>InvalidateFact := (\<lambda>oldFactID newFactID reason s.
        (Some ''fact not found'', s @ [CInvalidateFact oldFactID newFactID reason]))\<rparr>"

definition example_store_request :: StoreFactRequest where
  "example_store_request =
     \<lparr>StoreFactRequest.Content = ''Water freezes at 0 degrees'',
      StoreFactRequest.Category = ''general'',
      StoreFactRequest.Confidence = 8 / 10, StoreFactRequest.SourceAgent = ''unknown'',
      StoreFactRequest.SourceConversation = ''''\<rparr>"





section \<open>The reader\<close>

text \<open>
  A reader operation ends with a result, with a Go \<^verbatim>\<open>error\<close> (its message), or
  with a run-time panic when a row is indexed out of range.
\<close>

datatype error = Failure string | Panic

text \<open>
  Go's \<^verbatim>\<open>int\<close> is a 64-bit signed integer: arithmetic on it wraps around.
\<close>

definition go_int :: "int \<Rightarrow> int" where
  "go_int x = (x + 2 ^ 63) mod 2 ^ 64 - 2 ^ 63"

subsection \<open>Scripts\<close>

text \<open>
  The reader sends CozoScript text to the backend. A script is modelled by its parts,
  one field for each part of the text that the reader's templates vary:
  \<^item> \<open>q_head\<close>: the columns of the rule head \<^verbatim>\<open>?[...]\<close>, or \<^verbatim>\<open>count(id)\<close> when
    \<open>q_count\<close> holds;
  \<^item> \<open>q_hnsw\<close>: the index atom \<^verbatim>\<open>~rel:idx { key | query: q, k: K, ef: E, bind_distance: distance }\<close>
    with \<^verbatim>\<open>q = vec(...)\<close>, when present;
  \<^item> \<open>q_edge\<close>: an edge atom \<^verbatim>\<open>*rel { a, b }, a = 'literal'\<close> whose other column is
    joined with the \<open>id\<close> of the node relation, when present;
  \<^item> \<open>q_relation\<close>, \<open>q_columns\<close>: the node relation \<^verbatim>\<open>*rel { columns }\<close>;
  \<^item> \<open>q_conds\<close>: the remaining conditions; \<open>q_order\<close>, \<open>q_limit\<close>, \<open>q_offset\<close>: the
    options \<^verbatim>\<open>:order\<close>, \<^verbatim>\<open>:limit\<close>, \<^verbatim>\<open>:offset\<close>.
  A quoted literal is kept as the text between the quotes.
\<close>

datatype cond =
    ColEq string any
  | StrIncludes string string
  | Or cond cond

record hnsw_atom =
  hn_relation :: string
  hn_index :: string
  hn_key :: string
  hn_query :: "rat list"
  hn_k :: int
  hn_ef :: int

record edge_atom =
  ed_relation :: string
  ed_bound :: string
  ed_value :: string
  ed_join :: string

record script =
  q_head :: "string list"
  q_count :: bool
  q_hnsw :: "hnsw_atom option"
  q_edge :: "edge_atom option"
  q_relation :: string
  q_columns :: "string list"
  q_conds :: "cond list"
  q_order :: "string option"
  q_limit :: "int option"
  q_offset :: "int option"

text \<open>
  The reader holds the backend, of which it uses \<^verbatim>\<open>Query\<close> alone (a script is
  answered by an error message or by rows), and the embedding generator, which may be
  absent.
\<close>

record Reader =
  backend_Query :: "script \<Rightarrow> string + any list list"
  embedder_GenerateQuery :: "(string \<Rightarrow> string + rat list) option"

subsection \<open>Type conversion and parsing helpers\<close>

definition toString :: "helpers \<Rightarrow> any \<Rightarrow> string" where
  "toString h v = (case v of ANil \<Rightarrow> '''' | AStr s \<Rightarrow> s | _ \<Rightarrow> Sprintf_v h v)"

definition toInt64 :: "any \<Rightarrow> int" where
  "toInt64 v = (case v of AFloat n \<Rightarrow> float64_to_int n
                        | AInt64 n \<Rightarrow> n
                        | AInt n \<Rightarrow> n
                        | _ \<Rightarrow> 0)"

definition toFloat64 :: "any \<Rightarrow> rat" where
  "toFloat64 v = (case v of AFloat n \<Rightarrow> n
                          | AInt n \<Rightarrow> of_int n
                          | AInt64 n \<Rightarrow> of_int n
                          | _ \<Rightarrow> 0)"

definition toBool :: "any \<Rightarrow> bool" where
  "toBool v = (case v of ABool b \<Rightarrow> b | _ \<Rightarrow> False)"

text \<open>The zero values of the node structs.\<close>

definition zero_Fact :: Fact where
  "zero_Fact = \<lparr>Fact.ID = '''', Fact.Content = '''', Fact.Category = '''', Fact.Confidence = 0,
                 Fact.SourceAgent = '''', Fact.SourceConversation = '''', Fact.Valid = False,
                 Fact.CreatedAt = 0, Fact.UpdatedAt = 0\<rparr>"

definition zero_Decision :: Decision where
  "zero_Decision = \<lparr>Decision.ID = '''', Decision.Title = '''', Decision.Rationale = '''',
                     Decision.Alternatives = '''', Decision.Context = '''',
                     Decision.SourceAgent = '''', Decision.SourceConversation = '''',
                     Decision.Status = '''', Decision.CreatedAt = 0, Decision.UpdatedAt = 0\<rparr>"

definition zero_Entity :: Entity where
  "zero_Entity = \<lparr>Entity.ID = '''', Entity.Name = '''', Entity.Kind = '''',
                   Entity.Description = '''', Entity.SourceAgent = '''',
                   Entity.CreatedAt = 0, Entity.UpdatedAt = 0\<rparr>"

definition zero_Event :: Event where
  "zero_Event = \<lparr>Event.ID = '''', Event.Title = '''', Event.Description = '''',
                  Event.EventDate = '''', Event.SourceAgent = '''',
                  Event.SourceConversation = '''', Event.CreatedAt = 0, Event.UpdatedAt = 0\<rparr>"

definition zero_Topic :: Topic where
  "zero_Topic = \<lparr>Topic.ID = '''', Topic.Name = '''', Topic.Description = '''',
                  Topic.CreatedAt = 0, Topic.UpdatedAt = 0\<rparr>"

text \<open>
  \<^verbatim>\<open>parseSearchResult\<close> indexes the row without checking its length, except for the
  distance column; a row that is too short makes it panic (\<open>None\<close>).
\<close>

definition parseSearchResult :: "helpers \<Rightarrow> string \<Rightarrow> any list \<Rightarrow> SearchResult option" where
  "parseSearchResult h ntype row =
     (let sr = \<lparr>SearchResult.NodeType = ntype, SearchResult.ID = '''',
                SearchResult.Content = '''', SearchResult.Detail = '''',
                SearchResult.Distance = 0, SearchResult.Metadata = None\<rparr> in
      if ntype = ''fact'' then
        (if length row < 3 then None
         else Some (sr\<lparr>SearchResult.ID := toString h (row ! 0),
                        SearchResult.Content := toString h (row ! 1),
                        SearchResult.Detail := toString h (row ! 2),
                        SearchResult.Distance :=
                          (if length row > 4 then toFloat64 (row ! 4) else 0),
                        SearchResult.Metadata :=
                          Some (NFact (zero_Fact\<lparr>Fact.ID := toString h (row ! 0),
                                                  Fact.Content := toString h (row ! 1),
                                                  Fact.Category := toString h (row ! 2)\<rparr>))\<rparr>))
      else if ntype = ''decision'' then
        (if length row < 3 then None
         else Some (sr\<lparr>SearchResult.ID := toString h (row ! 0),
                        SearchResult.Content := toString h (row ! 1),
                        SearchResult.Detail := toString h (row ! 2),
                        SearchResult.Distance :=
                          (if length row > 4 then toFloat64 (row ! 4) else 0),
                        SearchResult.Metadata :=
                          Some (NDecision (zero_Decision\<lparr>Decision.ID := toString h (row ! 0),
                                                          Decision.Title := toString h (row ! 1)\<rparr>))\<rparr>))
      else if ntype = ''entity'' then
        (if length row < 4 then None
         else Some (sr\<lparr>SearchResult.ID := toString h (row ! 0),
                        SearchResult.Content := toString h (row ! 1),
                        SearchResult.Detail := toString h (row ! 3),
                        SearchResult.Distance :=
                          (if length row > 4 then toFloat64 (row ! 4) else 0),
                        SearchResult.Metadata :=
                          Some (NEntity (zero_Entity\<lparr>Entity.ID := toString h (row ! 0),
                                                      Entity.Name := toString h (row ! 1),
                                                      Entity.Kind := toString h (row ! 2)\<rparr>))\<rparr>))
      else if ntype = ''event'' then
        (if length row < 3 then None
         else Some (sr\<lparr>SearchResult.ID := toString h (row ! 0),
                        SearchResult.Content := toString h (row ! 1),
                        SearchResult.Detail := toString h (row ! 2),
                        SearchResult.Distance :=
                          (if length row > 4 then toFloat64 (row ! 4) else 0),
                        SearchResult.Metadata :=
                          Some (NEvent (zero_Event\<lparr>Event.ID := toString h (row ! 0),
                                                    Event.Title := toString h (row ! 1)\<rparr>))\<rparr>))
      else if ntype = ''topic'' then
        (if length row < 2 then None
         else Some (sr\<lparr>SearchResult.ID := toString h (row ! 0),
                        SearchResult.Content := toString h (row ! 1),
                        SearchResult.Detail :=
                          (if length row > 2 then toString h (row ! 2) else ''''),
                        SearchResult.Metadata :=
                          Some (NTopic (zero_Topic\<lparr>Topic.ID := toString h (row ! 0),
                                                    Topic.Name := toString h (row ! 1)\<rparr>))\<rparr>))
      else Some sr)"

text \<open>\<^verbatim>\<open>parseNode\<close> checks the length of the row and returns nil (\<open>None\<close>) when it is short.\<close>

definition parseNode :: "helpers \<Rightarrow> string \<Rightarrow> any list \<Rightarrow> node option" where
  "parseNode h ntype row =
     (if ntype = ''fact'' then
        (if length row < 9 then None
         else Some (NFact \<lparr>Fact.ID = toString h (row ! 0),
                            Fact.Content = toString h (row ! 1),
                            Fact.Category = toString h (row ! 2),
                            Fact.Confidence = toFloat64 (row ! 3),
                            Fact.SourceAgent = toString h (row ! 4),
                            Fact.SourceConversation = toString h (row ! 5),
                            Fact.Valid = toBool (row ! 6),
                            Fact.CreatedAt = toInt64 (row ! 7),
                            Fact.UpdatedAt = toInt64 (row ! 8)\<rparr>))
      else if ntype = ''decision'' then
        (if length row < 10 then None
         else Some (NDecision \<lparr>Decision.ID = toString h (row ! 0),
                                Decision.Title = toString h (row ! 1),
                                Decision.Rationale = toString h (row ! 2),
                                Decision.Alternatives = toString h (row ! 3),
                                Decision.Context = toString h (row ! 4),
                                Decision.SourceAgent = toString h (row ! 5),
                                Decision.SourceConversation = toString h (row ! 6),
                                Decision.Status = toString h (row ! 7),
                                Decision.CreatedAt = toInt64 (row ! 8),
                                Decision.UpdatedAt = toInt64 (row ! 9)\<rparr>))
      else if ntype = ''entity'' then
        (if length row < 7 then None
         else Some (NEntity \<lparr>Entity.ID = toString h (row ! 0),
                              Entity.Name = toString h (row ! 1),
                              Entity.Kind = toString h (row ! 2),
                              Entity.Description = toString h (row ! 3),
                              Entity.SourceAgent = toString h (row ! 4),
                              Entity.CreatedAt = toInt64 (row ! 5),
                              Entity.UpdatedAt = toInt64 (row ! 6)\<rparr>))
      else if ntype = ''event'' then
        (if length row < 8 then None
         else Some (NEvent \<lparr>Event.ID = toString h (row ! 0),
                             Event.Title = toString h (row ! 1),
                             Event.Description = toString h (row ! 2),
                             Event.EventDate = toString h (row ! 3),
                             Event.SourceAgent = toString h (row ! 4),
                             Event.SourceConversation = toString h (row ! 5),
                             Event.CreatedAt = toInt64 (row ! 6),
                             Event.UpdatedAt = toInt64 (row ! 7)\<rparr>))
      else if ntype = ''topic'' then
        (if length row < 5 then None
         else Some (NTopic \<lparr>Topic.ID = toString h (row ! 0),
                             Topic.Name = toString h (row ! 1),
                             Topic.Description = toString h (row ! 2),
                             Topic.CreatedAt = toInt64 (row ! 3),
                             Topic.UpdatedAt = toInt64 (row ! 4)\<rparr>))
      else None)"

subsection \<open>Semantic search\<close>

text \<open>
  The script that \<^verbatim>\<open>SemanticSearch\<close> formats for a node type; \<open>None\<close> is the
  \<^verbatim>\<open>default: continue\<close> branch of its switch.
\<close>

definition SemanticSearch_script :: "string \<Rightarrow> rat list \<Rightarrow> int \<Rightarrow> script option" where
  "SemanticSearch_script nt queryEmb limit =
     (if nt = ''fact'' then
        Some \<lparr>q_head = [''id'', ''content'', ''category'', ''confidence'', ''distance''],
              q_count = False,
              q_hnsw = Some \<lparr>hn_relation = ''mie_fact_embedding'', hn_index = ''fact_embedding_idx'',
                              hn_key = ''fact_id'', hn_query = queryEmb,
                              hn_k = go_int (limit * 5), hn_ef = 200\<rparr>,
              q_edge = None,
              q_relation = ''mie_fact'',
              q_columns = [''id'', ''content'', ''category'', ''confidence'', ''valid''],
              q_conds = [ColEq ''valid'' (ABool True)],
              q_order = Some ''distance'', q_limit = Some limit, q_offset = None\<rparr>
      else if nt = ''decision'' then
        Some \<lparr>q_head = [''id'', ''title'', ''rationale'', ''status'', ''distance''],
              q_count = False,
              q_hnsw = Some \<lparr>hn_relation = ''mie_decision_embedding'',
                              hn_index = ''decision_embedding_idx'',
                              hn_key = ''decision_id'', hn_query = queryEmb,
                              hn_k = go_int (limit * 5), hn_ef = 200\<rparr>,
              q_edge = None,
              q_relation = ''mie_decision'',
              q_columns = [''id'', ''title'', ''rationale'', ''status''],
              q_conds = [],
              q_order = Some ''distance'', q_limit = Some limit, q_offset = None\<rparr>
      else if nt = ''entity'' then
        Some \<lparr>q_head = [''id'', ''name'', ''kind'', ''description'', ''distance''],
              q_count = False,
              q_hnsw = Some \<lparr>hn_relation = ''mie_entity_embedding'',
                              hn_index = ''entity_embedding_idx'',
                              hn_key = ''entity_id'', hn_query = queryEmb,
                              hn_k = go_int (limit * 5), hn_ef = 200\<rparr>,
              q_edge = None,
              q_relation = ''mie_entity'',
              q_columns = [''id'', ''name'', ''kind'', ''description''],
              q_conds = [],
              q_order = Some ''distance'', q_limit = Some limit, q_offset = None\<rparr>
      else if nt = ''event'' then
        Some \<lparr>q_head = [''id'', ''title'', ''description'', ''event_date'', ''distance''],
              q_count = False,
              q_hnsw = Some \<lparr>hn_relation = ''mie_event_embedding'',
                              hn_index = ''event_embedding_idx'',
                              hn_key = ''event_id'', hn_query = queryEmb,
                              hn_k = go_int (limit * 5), hn_ef = 200\<rparr>,
              q_edge = None,
              q_relation = ''mie_event'',
              q_columns = [''id'', ''title'', ''description'', ''event_date''],
              q_conds = [],
              q_order = Some ''distance'', q_limit = Some limit, q_offset = None\<rparr>
      else None)"

text \<open>The loop over the rows of one query result, appending to \<open>results\<close>.\<close>

fun parseSearchResults ::
  "helpers \<Rightarrow> string \<Rightarrow> any list list \<Rightarrow> SearchResult list \<Rightarrow> SearchResult list option" where
  "parseSearchResults h nt [] results = Some results"
| "parseSearchResults h nt (row # rows) results =
     (case parseSearchResult h nt row of
        None \<Rightarrow> None
      | Some sr \<Rightarrow> parseSearchResults h nt rows (results @ [sr]))"

text \<open>
  The loop over the node types: a type without a script is skipped, a failed query is
  logged and skipped, the rows of a successful one are parsed and appended.
\<close>

fun SemanticSearch_loop ::
  "helpers \<Rightarrow> Reader \<Rightarrow> rat list \<Rightarrow> int \<Rightarrow> string list \<Rightarrow> SearchResult list
     \<Rightarrow> error + SearchResult list" where
  "SemanticSearch_loop h r queryEmb limit [] results = Inr results"
| "SemanticSearch_loop h r queryEmb limit (nt # nts) results =
     (case SemanticSearch_script nt queryEmb limit of
        None \<Rightarrow> SemanticSearch_loop h r queryEmb limit nts results
      | Some script \<Rightarrow>
          (case backend_Query r script of
             Inl err \<Rightarrow> SemanticSearch_loop h r queryEmb limit nts results
           | Inr rows \<Rightarrow>
               (case parseSearchResults h nt rows results of
                  None \<Rightarrow> Inl Panic
                | Some results' \<Rightarrow> SemanticSearch_loop h r queryEmb limit nts results')))"

definition SemanticSearch ::
  "helpers \<Rightarrow> Reader \<Rightarrow> string \<Rightarrow> string list \<Rightarrow> int \<Rightarrow> error + SearchResult list" where
  "SemanticSearch h r query nodeTypes limit0 =
     (case embedder_GenerateQuery r of
        None \<Rightarrow> Inl (Failure ''semantic search requires embeddings to be enabled'')
      | Some generateQuery \<Rightarrow>
          (let limit = (if limit0 \<le> 0 then 10 else limit0) in
           case generateQuery query of
             Inl err \<Rightarrow> Inl (Failure (''generate query embedding: '' @ err))
           | Inr queryEmb \<Rightarrow>
               (let nodeTypes' = (if length nodeTypes = 0
                                  then [''fact'', ''decision'', ''entity'', ''event'']
                                  else nodeTypes)
                in case SemanticSearch_loop h r queryEmb limit nodeTypes' [] of
                     Inl e \<Rightarrow> Inl e
                   | Inr results \<Rightarrow>
                       (let sorted = sort_Slice h
                              (\<lambda>a b. SearchResult.Distance a < SearchResult.Distance b) results
                        in if int (length sorted) > limit
                           then Inr (take (nat limit) sorted)
                           else Inr sorted))))"

subsection \<open>Exact search\<close>

definition ExactSearch_script :: "string \<Rightarrow> string \<Rightarrow> int \<Rightarrow> script option" where
  "ExactSearch_script nt escaped limit =
     (if nt = ''fact'' then
        Some \<lparr>q_head = [''id'', ''content'', ''category'', ''confidence''],
              q_count = False, q_hnsw = None, q_edge = None,
              q_relation = ''mie_fact'',
              q_columns = [''id'', ''content'', ''category'', ''confidence'', ''valid''],
              q_conds = [ColEq ''valid'' (ABool True), StrIncludes ''content'' escaped],
              q_order = None, q_limit = Some limit, q_offset = None\<rparr>
      else if nt = ''decision'' then
        Some \<lparr>q_head = [''id'', ''title'', ''rationale'', ''status''],
              q_count = False, q_hnsw = None, q_edge = None,
              q_relation = ''mie_decision'',
              q_columns = [''id'', ''title'', ''rationale'', ''status''],
              q_conds = [Or (StrIncludes ''title'' escaped) (StrIncludes ''rationale'' escaped)],
              q_order = None, q_limit = Some limit, q_offset = None\<rparr>
      else if nt = ''entity'' then
        Some \<lparr>q_head = [''id'', ''name'', ''kind'', ''description''],
              q_count = False, q_hnsw = None, q_edge = None,
              q_relation = ''mie_entity'',
              q_columns = [''id'', ''name'', ''kind'', ''description''],
              q_conds = [Or (StrIncludes ''name'' escaped) (StrIncludes ''description'' escaped)],
              q_order = None, q_limit = Some limit, q_offset = None\<rparr>
      else if nt = ''event'' then
        Some \<lparr>q_head = [''id'', ''title'', ''description'', ''event_date''],
              q_count = False, q_hnsw = None, q_edge = None,
              q_relation = ''mie_event'',
              q_columns = [''id'', ''title'', ''description'', ''event_date''],
              q_conds = [Or (StrIncludes ''title'' escaped) (StrIncludes ''description'' escaped)],
              q_order = None, q_limit = Some limit, q_offset = None\<rparr>
      else if nt = ''topic'' then
        Some \<lparr>q_head = [''id'', ''name'', ''description''],
              q_count = False, q_hnsw = None, q_edge = None,
              q_relation = ''mie_topic'',
              q_columns = [''id'', ''name'', ''description''],
              q_conds = [Or (StrIncludes ''name'' escaped) (StrIncludes ''description'' escaped)],
              q_order = None, q_limit = Some limit, q_offset = None\<rparr>
      else None)"

fun ExactSearch_loop ::
  "helpers \<Rightarrow> Reader \<Rightarrow> string \<Rightarrow> int \<Rightarrow> string list \<Rightarrow> SearchResult list
     \<Rightarrow> error + SearchResult list" where
  "ExactSearch_loop h r escaped limit [] results = Inr results"
| "ExactSearch_loop h r escaped limit (nt # nts) results =
     (case ExactSearch_script nt escaped limit of
        None \<Rightarrow> ExactSearch_loop h r escaped limit nts results
      | Some script \<Rightarrow>
          (case backend_Query r script of
             Inl err \<Rightarrow> ExactSearch_loop h r escaped limit nts results
           | Inr rows \<Rightarrow>
               (case parseSearchResults h nt rows results of
                  None \<Rightarrow> Inl Panic
                | Some results' \<Rightarrow> ExactSearch_loop h r escaped limit nts results')))"

definition ExactSearch ::
  "helpers \<Rightarrow> Reader \<Rightarrow> string \<Rightarrow> string list \<Rightarrow> int \<Rightarrow> error + SearchResult list" where
  "ExactSearch h r query nodeTypes limit0 =
     (let limit = (if limit0 \<le> 0 then 10 else limit0);
          escaped = escapeDatalog h query;
          nodeTypes' = (if length nodeTypes = 0
                        then [''fact'', ''decision'', ''entity'', ''event'', ''topic'']
                        else nodeTypes)
      in case ExactSearch_loop h r escaped limit nodeTypes' [] of
           Inl e \<Rightarrow> Inl e
         | Inr results \<Rightarrow>
             if int (length results) > limit
             then Inr (take (nat limit) results)
             else Inr results)"

subsection \<open>List\<close>

definition buildListConditions :: "helpers \<Rightarrow> ListOptions \<Rightarrow> cond list" where
  "buildListConditions h opts =
     (if ListOptions.NodeType opts = ''fact'' then
        (if ListOptions.Category opts \<noteq> ''''
         then [ColEq ''category'' (AStr (escapeDatalog h (ListOptions.Category opts)))] else [])
        @ (if ValidOnly opts then [ColEq ''valid'' (ABool True)] else [])
      else if ListOptions.NodeType opts = ''decision'' then
        (if ListOptions.Status opts \<noteq> ''''
         then [ColEq ''status'' (AStr (escapeDatalog h (ListOptions.Status opts)))] else [])
      else if ListOptions.NodeType opts = ''entity'' then
        (if ListOptions.Kind opts \<noteq> ''''
         then [ColEq ''kind'' (AStr (escapeDatalog h (ListOptions.Kind opts)))] else [])
      else [])"

definition columnsForNodeType :: "string \<Rightarrow> string list" where
  "columnsForNodeType ntype =
     (if ntype = ''fact'' then
        [''id'', ''content'', ''category'', ''confidence'', ''source_agent'',
         ''source_conversation'', ''valid'', ''created_at'', ''updated_at'']
      else if ntype = ''decision'' then
        [''id'', ''title'', ''rationale'', ''alternatives'', ''context'', ''source_agent'',
         ''source_conversation'', ''status'', ''created_at'', ''updated_at'']
      else if ntype = ''entity'' then
        [''id'', ''name'', ''kind'', ''description'', ''source_agent'', ''created_at'',
         ''updated_at'']
      else if ntype = ''event'' then
        [''id'', ''title'', ''description'', ''event_date'', ''source_agent'',
         ''source_conversation'', ''created_at'', ''updated_at'']
      else if ntype = ''topic'' then
        [''id'', ''name'', ''description'', ''created_at'', ''updated_at'']
      else [''id''])"

text \<open>
  \<^verbatim>\<open>countNodes\<close> binds \<open>id\<close> and the column of every condition of the form
  \<^verbatim>\<open>col = ...\<close>, and reads the count from the first cell of the first row.
\<close>

fun cond_column :: "cond \<Rightarrow> string list" where
  "cond_column (ColEq col v) = [col]"
| "cond_column (StrIncludes col lit) = []"
| "cond_column (Or a b) = []"

definition countNodes :: "Reader \<Rightarrow> string \<Rightarrow> cond list \<Rightarrow> error + int" where
  "countNodes r table conditions =
     (let countCols = [''id''] @ concat (map cond_column conditions);
          countScript = \<lparr>q_head = [''id''], q_count = True, q_hnsw = None, q_edge = None,
                         q_relation = table, q_columns = countCols, q_conds = conditions,
                         q_order = None, q_limit = None, q_offset = None\<rparr>
      in case backend_Query r countScript of
           Inl err \<Rightarrow> Inl (Failure (''count nodes: '' @ err))
         | Inr rows \<Rightarrow>
             (case rows of
                [] \<Rightarrow> Inr 0
              | row # rest \<Rightarrow>
                  (case row of
                     [] \<Rightarrow> Inl Panic
                   | v # vs \<Rightarrow>
                       (case v of
                          AFloat x \<Rightarrow> Inr (float64_to_int x)
                        | AInt n \<Rightarrow> Inr n
                        | _ \<Rightarrow> Inr 0))))"

text \<open>
  The script of \<^verbatim>\<open>ListNodes\<close>, with the defaults that \<^verbatim>\<open>ListNodes\<close> applies to
  the limit, to the sort field and to the sort order.
\<close>

definition ListNodes_script :: "helpers \<Rightarrow> ListOptions \<Rightarrow> script" where
  "ListNodes_script h opts0 =
     (let opts = (if Limit opts0 \<le> 0 then opts0\<lparr>Limit := 20\<rparr> else opts0);
          table = nodeTypeToTable h (ListOptions.NodeType opts);
          conditions = buildListConditions h opts;
          columns = columnsForNodeType (ListOptions.NodeType opts);
          sortBy = (if SortBy opts = '''' then ''created_at'' else SortBy opts);
          sortOrder = (if SortOrder opts \<noteq> ''asc'' then ''-'' @ sortBy else sortBy)
      in \<lparr>q_head = columns, q_count = False, q_hnsw = None, q_edge = None,
          q_relation = table, q_columns = columns, q_conds = conditions,
          q_order = Some sortOrder, q_limit = Some (Limit opts), q_offset = Some (Offset opts)\<rparr>)"

definition ListNodes :: "helpers \<Rightarrow> Reader \<Rightarrow> ListOptions \<Rightarrow> error + (node list \<times> int)" where
  "ListNodes h r opts0 =
     (let opts = (if Limit opts0 \<le> 0 then opts0\<lparr>Limit := 20\<rparr> else opts0);
          table = nodeTypeToTable h (ListOptions.NodeType opts)
      in if table = '''' then Inl (Failure (''unknown node type: '' @ ListOptions.NodeType opts))
         else
           (case backend_Query r (ListNodes_script h opts0) of
              Inl err \<Rightarrow> Inl (Failure (''list nodes: '' @ err))
            | Inr rows \<Rightarrow>
                (case countNodes r table (buildListConditions h opts) of
                   Inl e \<Rightarrow> Inl e
                 | Inr totalCount \<Rightarrow>
                     Inr (concat (map (\<lambda>row. case parseNode h (ListOptions.NodeType opts) row of
                                               None \<Rightarrow> [] | Some n \<Rightarrow> [n]) rows),
                          totalCount))))"

subsection \<open>Fixed traversals over the relation fact_entity\<close>

definition GetRelatedEntities :: "helpers \<Rightarrow> Reader \<Rightarrow> string \<Rightarrow> error + Entity list" where
  "GetRelatedEntities h r factID =
     (let script = \<lparr>q_head = [''id'', ''name'', ''kind'', ''description'', ''source_agent'',
                               ''created_at'', ''updated_at''],
                    q_count = False, q_hnsw = None,
                    q_edge = Some \<lparr>ed_relation = ''mie_fact_entity'', ed_bound = ''fact_id'',
                                    ed_value = escapeDatalog h factID, ed_join = ''entity_id''\<rparr>,
                    q_relation = ''mie_entity'',
                    q_columns = [''id'', ''name'', ''kind'', ''description'', ''source_agent'',
                                 ''created_at'', ''updated_at''],
                    q_conds = [], q_order = None, q_limit = None, q_offset = None\<rparr>
      in case backend_Query r script of
           Inl err \<Rightarrow> Inl (Failure (''get related entities: '' @ err))
         | Inr rows \<Rightarrow>
             Inr (concat (map (\<lambda>row. case parseNode h ''entity'' row of
                                       Some (NEntity ent) \<Rightarrow> [ent] | _ \<Rightarrow> []) rows)))"

definition GetFactsAboutEntity :: "helpers \<Rightarrow> Reader \<Rightarrow> string \<Rightarrow> error + Fact list" where
  "GetFactsAboutEntity h r entityID =
     (let script = \<lparr>q_head = [''id'', ''content'', ''category'', ''confidence'', ''source_agent'',
                               ''source_conversation'', ''valid'', ''created_at'', ''updated_at''],
                    q_count = False, q_hnsw = None,
                    q_edge = Some \<lparr>ed_relation = ''mie_fact_entity'', ed_bound = ''entity_id'',
                                    ed_value = escapeDatalog h entityID, ed_join = ''fact_id''\<rparr>,
                    q_relation = ''mie_fact'',
                    q_columns = [''id'', ''content'', ''category'', ''confidence'', ''source_agent'',
                                 ''source_conversation'', ''valid'', ''created_at'', ''updated_at''],
                    q_conds = [], q_order = None, q_limit = None, q_offset = None\<rparr>
      in case backend_Query r script of
           Inl err \<Rightarrow> Inl (Failure (''get facts about entity: '' @ err))
         | Inr rows \<Rightarrow>
             Inr (concat (map (\<lambda>row. case parseNode h ''fact'' row of
                                       Some (NFact f) \<Rightarrow> [f] | _ \<Rightarrow> []) rows)))"

definition GetRelatedFacts :: "helpers \<Rightarrow> Reader \<Rightarrow> string \<Rightarrow> error + Fact list" where
  "GetRelatedFacts h r entityID = GetFactsAboutEntity h r entityID"

section \<open>The storage substrate\<close>

text \<open>
  Modelled from the spec: the storage substrate is an external collaborator, an embedded
  datalog store assumed to provide keyed relations, relational joins and an
  approximate-nearest-neighbour index over vectors. Its state is modelled by the rows of
  the node relations, the pairs (fact id, entity id) of the edge relation
  \<open>mie_fact_entity\<close>, and the index search, which answers an index name, a query vector,
  \<open>k\<close> and \<open>ef\<close> by at most \<open>k\<close> pairs (key, distance), or by nothing when the index
  does not exist. Relations are keyed, so the lists are meant without duplicate rows.
\<close>

record db =
  mie_fact :: "Fact list"
  mie_decision :: "Decision list"
  mie_entity :: "Entity list"
  mie_event :: "Event list"
  mie_topic :: "Topic list"
  mie_fact_entity :: "(string \<times> string) list"
  hnsw_search :: "string \<Rightarrow> rat list \<Rightarrow> int \<Rightarrow> int \<Rightarrow> (string \<times> rat) list option"

text \<open>A stored row binds the columns of its relation.\<close>

definition Fact_row :: "Fact \<Rightarrow> (string \<times> any) list" where
  "Fact_row f =
     [(''id'', AStr (Fact.ID f)), (''content'', AStr (Fact.Content f)),
      (''category'', AStr (Fact.Category f)), (''confidence'', AFloat (Fact.Confidence f)),
      (''source_agent'', AStr (Fact.SourceAgent f)),
      (''source_conversation'', AStr (Fact.SourceConversation f)),
      (''valid'', ABool (Fact.Valid f)),
      (''created_at'', AInt64 (Fact.CreatedAt f)), (''updated_at'', AInt64 (Fact.UpdatedAt f))]"

definition Decision_row :: "Decision \<Rightarrow> (string \<times> any) list" where
  "Decision_row d =
     [(''id'', AStr (Decision.ID d)), (''title'', AStr (Decision.Title d)),
      (''rationale'', AStr (Decision.Rationale d)),
      (''alternatives'', AStr (Decision.Alternatives d)),
      (''context'', AStr (Decision.Context d)),
      (''source_agent'', AStr (Decision.SourceAgent d)),
      (''source_conversation'', AStr (Decision.SourceConversation d)),
      (''status'', AStr (Decision.Status d)),
      (''created_at'', AInt64 (Decision.CreatedAt d)),
      (''updated_at'', AInt64 (Decision.UpdatedAt d))]"

definition Entity_row :: "Entity \<Rightarrow> (string \<times> any) list" where
  "Entity_row e =
     [(''id'', AStr (Entity.ID e)), (''name'', AStr (Entity.Name e)),
      (''kind'', AStr (Entity.Kind e)), (''description'', AStr (Entity.Description e)),
      (''source_agent'', AStr (Entity.SourceAgent e)),
      (''created_at'', AInt64 (Entity.CreatedAt e)), (''updated_at'', AInt64 (Entity.UpdatedAt e))]"

definition Event_row :: "Event \<Rightarrow> (string \<times> any) list" where
  "Event_row e =
     [(''id'', AStr (Event.ID e)), (''title'', AStr (Event.Title e)),
      (''description'', AStr (Event.Description e)), (''event_date'', AStr (Event.EventDate e)),
      (''source_agent'', AStr (Event.SourceAgent e)),
      (''source_conversation'', AStr (Event.SourceConversation e)),
      (''created_at'', AInt64 (Event.CreatedAt e)), (''updated_at'', AInt64 (Event.UpdatedAt e))]"

definition Topic_row :: "Topic \<Rightarrow> (string \<times> any) list" where
  "Topic_row t =
     [(''id'', AStr (Topic.ID t)), (''name'', AStr (Topic.Name t)),
      (''description'', AStr (Topic.Description t)),
      (''created_at'', AInt64 (Topic.CreatedAt t)), (''updated_at'', AInt64 (Topic.UpdatedAt t))]"

definition relation_rows :: "db \<Rightarrow> string \<Rightarrow> (string \<times> any) list list option" where
  "relation_rows d rel =
     (if rel = ''mie_fact'' then Some (map Fact_row (mie_fact d))
      else if rel = ''mie_decision'' then Some (map Decision_row (mie_decision d))
      else if rel = ''mie_entity'' then Some (map Entity_row (mie_entity d))
      else if rel = ''mie_event'' then Some (map Event_row (mie_event d))
      else if rel = ''mie_topic'' then Some (map Topic_row (mie_topic d))
      else None)"

definition relation_columns :: "string \<Rightarrow> string list" where
  "relation_columns rel =
     (if rel = ''mie_fact'' then map fst (Fact_row zero_Fact)
      else if rel = ''mie_decision'' then map fst (Decision_row zero_Decision)
      else if rel = ''mie_entity'' then map fst (Entity_row zero_Entity)
      else if rel = ''mie_event'' then map fst (Event_row zero_Event)
      else if rel = ''mie_topic'' then map fst (Topic_row zero_Topic)
      else [])"

definition edge_rows :: "db \<Rightarrow> string \<Rightarrow> (string \<times> any) list list option" where
  "edge_rows d rel =
     (if rel = ''mie_fact_entity''
      then Some (map (\<lambda>(f, e). [(''fact_id'', AStr f), (''entity_id'', AStr e)]) (mie_fact_entity d))
      else None)"

text \<open>Conditions: equality with a literal, substring test, disjunction.\<close>

fun str_includes :: "string \<Rightarrow> string \<Rightarrow> bool" where
  "str_includes [] lit = (lit = [])"
| "str_includes (c # cs) lit = (prefix lit (c # cs) \<or> str_includes cs lit)"

fun cond_holds :: "(string \<times> any) list \<Rightarrow> cond \<Rightarrow> bool" where
  "cond_holds row (ColEq col v) = (map_of row col = Some v)"
| "cond_holds row (StrIncludes col lit) =
     (case map_of row col of Some (AStr s) \<Rightarrow> str_includes s lit | _ \<Rightarrow> False)"
| "cond_holds row (Or a b) = (cond_holds row a \<or> cond_holds row b)"

fun cond_columns :: "cond \<Rightarrow> string list" where
  "cond_columns (ColEq col v) = [col]"
| "cond_columns (StrIncludes col lit) = [col]"
| "cond_columns (Or a b) = cond_columns a @ cond_columns b"

text \<open>
  The order of values used by \<^verbatim>\<open>:order\<close>: by kind (null, booleans, numbers,
  strings, the rest), numbers by value, strings by their bytes.
\<close>

fun str_less :: "string \<Rightarrow> string \<Rightarrow> bool" where
  "str_less [] [] = False"
| "str_less [] (y # ys) = True"
| "str_less (x # xs) [] = False"
| "str_less (x # xs) (y # ys) =
     ((of_char x :: nat) < of_char y \<or> (x = y \<and> str_less xs ys))"

definition any_rank :: "any \<Rightarrow> nat" where
  "any_rank v = (case v of ANil \<Rightarrow> 0 | ABool b \<Rightarrow> 1 | AFloat x \<Rightarrow> 2 | AInt n \<Rightarrow> 2
                        | AInt64 n \<Rightarrow> 2 | AStr s \<Rightarrow> 3 | AList xs \<Rightarrow> 4 | AMap m \<Rightarrow> 5)"

definition any_num :: "any \<Rightarrow> rat" where
  "any_num v = (case v of ABool b \<Rightarrow> (if b then 1 else 0) | AFloat x \<Rightarrow> x
                       | AInt n \<Rightarrow> of_int n | AInt64 n \<Rightarrow> of_int n | _ \<Rightarrow> 0)"

definition any_str :: "any \<Rightarrow> string" where
  "any_str v = (case v of AStr s \<Rightarrow> s | _ \<Rightarrow> '''')"

definition any_less :: "any \<Rightarrow> any \<Rightarrow> bool" where
  "any_less a b \<longleftrightarrow>
     any_rank a < any_rank b
     \<or> (any_rank a = any_rank b
         \<and> (any_num a < any_num b \<or> (any_num a = any_num b \<and> str_less (any_str a) (any_str b))))"

definition order_rows :: "string option \<Rightarrow> (string \<times> any) list list \<Rightarrow> (string \<times> any) list list" where
  "order_rows ord rows =
     (case ord of
        None \<Rightarrow> rows
      | Some col \<Rightarrow>
          if prefix ''-'' col
          then insertion_sort (\<lambda>a b. any_less (index_map b (drop 1 col)) (index_map a (drop 1 col))) rows
          else insertion_sort (\<lambda>a b. any_less (index_map a col) (index_map b col)) rows)"

definition order_column :: "string option \<Rightarrow> string list" where
  "order_column ord =
     (case ord of None \<Rightarrow> [] | Some col \<Rightarrow> [if prefix ''-'' col then drop 1 col else col])"

text \<open>
  The rows a script selects before its conditions apply: the rows of the node relation,
  joined with the candidates of the index search (each row then also binds
  \<open>distance\<close>), or joined with the edges whose bound column equals the literal.
\<close>

definition joined_rows ::
  "db \<Rightarrow> script \<Rightarrow> (string \<times> any) list list \<Rightarrow> string + (string \<times> any) list list" where
  "joined_rows d q base =
     (case q_hnsw q of
        Some a \<Rightarrow>
          (case hnsw_search d (hn_index a) (hn_query a) (hn_k a) (hn_ef a) of
             None \<Rightarrow> Inl ''index not found''
           | Some cands \<Rightarrow>
               Inr (concat (map (\<lambda>(key, dist).
                                   map (\<lambda>row. row @ [(''distance'', AFloat dist)])
                                       (filter (\<lambda>row. map_of row ''id'' = Some (AStr key)) base))
                                (take (nat (hn_k a)) cands))))
      | None \<Rightarrow>
          (case q_edge q of
             Some e \<Rightarrow>
               (case edge_rows d (ed_relation e) of
                  None \<Rightarrow> Inl ''relation not found''
                | Some edges \<Rightarrow>
                    Inr (concat (map (\<lambda>edge.
                                        filter (\<lambda>row. map_of edge (ed_join e) \<noteq> None
                                                       \<and> map_of row ''id'' = map_of edge (ed_join e))
                                               base)
                                     (filter (\<lambda>edge. map_of edge (ed_bound e)
                                                       = Some (AStr (ed_value e)))
                                             edges))))
           | None \<Rightarrow> Inr base))"

definition limit_rows :: "int option \<Rightarrow> int option \<Rightarrow> 'a list \<Rightarrow> 'a list" where
  "limit_rows lmt ofs rows =
     (let rows' = (case ofs of None \<Rightarrow> rows | Some n \<Rightarrow> drop (nat n) rows)
      in case lmt of None \<Rightarrow> rows' | Some n \<Rightarrow> take (nat n) rows')"

text \<open>
  Evaluation of a script: an unknown relation, an unknown index or a column that the
  script uses without binding it is an error; otherwise the selected rows are filtered by
  the conditions, ordered, cut by offset and limit and projected on the head, or counted.
\<close>

definition cozo_Query :: "db \<Rightarrow> script \<Rightarrow> string + any list list" where
  "cozo_Query d q =
     (case relation_rows d (q_relation q) of
        None \<Rightarrow> Inl ''relation not found''
      | Some base \<Rightarrow>
          if \<not> (set (q_columns q) \<subseteq> set (relation_columns (q_relation q))
                 \<and> set (q_head q @ concat (map cond_columns (q_conds q)) @ order_column (q_order q))
                     \<subseteq> set (q_columns q @ (case q_hnsw q of None \<Rightarrow> [] | Some a \<Rightarrow> [''distance''])))
          then Inl ''unbound column''
          else
            (case joined_rows d q base of
               Inl err \<Rightarrow> Inl err
             | Inr joined \<Rightarrow>
                 (let selected = filter (\<lambda>row. list_all (cond_holds row) (q_conds q)) joined in
                  if q_count q then Inr ([AFloat (of_nat (length selected))] # [])
                  else Inr (map (\<lambda>row. map (index_map row) (q_head q))
                                (limit_rows (q_limit q) (q_offset q)
                                   (order_rows (q_order q) selected))))))"

definition cozo_Reader :: "db \<Rightarrow> (string \<Rightarrow> string + rat list) option \<Rightarrow> Reader" where
  "cozo_Reader d gen = \<lparr>backend_Query = cozo_Query d, embedder_GenerateQuery = gen\<rparr>"

text \<open>A small graph, an embedder and list options for the worked examples of the reader.\<close>

definition example_fact_current :: Fact where
  "example_fact_current =
     \<lparr>Fact.ID = ''fact:b'', Fact.Content = ''Water freezes at 0 degrees'',
      Fact.Category = ''technical'', Fact.Confidence = 95 / 100, Fact.SourceAgent = ''agent'',
      Fact.SourceConversation = '''', Fact.Valid = True,
      Fact.CreatedAt = 1001, Fact.UpdatedAt = 1001\<rparr>"

definition example_fact_invalidated :: Fact where
  "example_fact_invalidated =
     \<lparr>Fact.ID = ''fact:a'', Fact.Content = ''Water freezes at 10 degrees'',
      Fact.Category = ''technical'', Fact.Confidence = 7 / 10, Fact.SourceAgent = ''agent'',
      Fact.SourceConversation = '''', Fact.Valid = False,
      Fact.CreatedAt = 1000, Fact.UpdatedAt = 1002\<rparr>"

definition example_entity :: Entity where
  "example_entity =
     \<lparr>Entity.ID = ''ent:w'', Entity.Name = ''Water'', Entity.Kind = ''other'',
      Entity.Description = ''a liquid'', Entity.SourceAgent = ''agent'',
      Entity.CreatedAt = 999, Entity.UpdatedAt = 999\<rparr>"

definition example_db :: db where
  "example_db =
     \<lparr>mie_fact = [example_fact_invalidated, example_fact_current],
      mie_decision = [], mie_entity = [example_entity], mie_event = [], mie_topic = [],
      mie_fact_entity = [(''fact:a'', ''ent:w''), (''fact:b'', ''ent:w'')],
      hnsw_search = (\<lambda>idx vec k ef.
         if idx = ''fact_embedding_idx'' then Some [(''fact:a'', 1 / 10), (''fact:b'', 3 / 10)]
         else if idx = ''entity_embedding_idx'' then Some [(''ent:w'', 2 / 10)]
         else None)\<rparr>"

definition example_embedder :: "string \<Rightarrow> string + rat list" where
  "example_embedder query = Inr [1, 0]"

definition example_result_entity :: SearchResult where
  "example_result_entity =
     \<lparr>SearchResult.NodeType = ''entity'', SearchResult.ID = ''ent:w'',
      SearchResult.Content = ''Water'', SearchResult.Detail = ''a liquid'',
      SearchResult.Distance = 2 / 10,
      SearchResult.Metadata =
        Some (NEntity (zero_Entity\<lparr>Entity.ID := ''ent:w'', Entity.Name := ''Water'',
                                    Entity.Kind := ''other''\<rparr>))\<rparr>"

definition example_result_fact :: SearchResult where
  "example_result_fact =
     \<lparr>SearchResult.NodeType = ''fact'', SearchResult.ID = ''fact:b'',
      SearchResult.Content = ''Water freezes at 0 degrees'', SearchResult.Detail = ''technical'',
      SearchResult.Distance = 3 / 10,
      SearchResult.Metadata =
        Some (NFact (zero_Fact\<lparr>Fact.ID := ''fact:b'',
                                Fact.Content := ''Water freezes at 0 degrees'',
                                Fact.Category := ''technical''\<rparr>))\<rparr>"

definition example_list_options :: ListOptions where
  "example_list_options =
     \<lparr>ListOptions.NodeType = ''fact'', ListOptions.Category = '''', ListOptions.Kind = '''',
      ListOptions.Status = '''', TopicName = '''', ValidOnly = True, Limit = 500, Offset = 0,
      SortBy = ''bogus'', SortOrder = ''desc''\<rparr>"

definition example_list_defaults :: ListOptions where
  "example_list_defaults =
     \<lparr>ListOptions.NodeType = ''fact'', ListOptions.Category = '''', ListOptions.Kind = '''',
      ListOptions.Status = '''', TopicName = '''', ValidOnly = True, Limit = 0, Offset = 0,
      SortBy = '''', SortOrder = ''''\<rparr>"

section \<open>Properties\<close>

subsection \<open>Bulk ingest: the size check\<close>

text \<open>
  Claim C6. A bulk ingest call whose items array is empty or holds more than 50 items
  fails with an error result, and no store operation is performed on any item: for
  every client the client state comes back unchanged.
\<close>

theorem BulkStore_rejects_bad_length:
  assumes "map_of args ''items'' = Some (AList itemSlice)"
      and "itemSlice = [] \<or> length itemSlice > 50"
  shows "IsError (fst (BulkStore h client args s)) \<and> snd (BulkStore h client args s) = s"
  using assms by (auto simp: BulkStore_def NewError_def maxBulkItems_def)

theorem BulkStore_rejects_bad_length_witness:
  "map_of [(''items'', AList (replicate 51 (AMap [(''type'', AStr ''fact''), (''content'', AStr ''test'')])))] ''items''
     = Some (AList (replicate 51 (AMap [(''type'', AStr ''fact''), (''content'', AStr ''test'')])))
   \<and> length (replicate 51 (AMap [(''type'', AStr ''fact''), (''content'', AStr ''test'')])) > 50
   \<and> IsError (fst (BulkStore example_helpers MockQuerier
        [(''items'', AList (replicate 51 (AMap [(''type'', AStr ''fact''), (''content'', AStr ''test'')])))] []))
   \<and> snd (BulkStore example_helpers MockQuerier
        [(''items'', AList (replicate 51 (AMap [(''type'', AStr ''fact''), (''content'', AStr ''test'')])))] []) = []"
  using BulkStore_rejects_bad_length
    [of "[(''items'', AList (replicate 51 (AMap [(''type'', AStr ''fact''), (''content'', AStr ''test'')])))]"
        "replicate 51 (AMap [(''type'', AStr ''fact''), (''content'', AStr ''test'')])"
        example_helpers MockQuerier "[]"]
  by simp

subsection \<open>Storing an entity: strict kinds\<close>

text \<open>
  Claim C7. A store_entity request whose kind is not one of person, company, project,
  product, technology, place, other fails with an error and creates no entity node:
  \<^verbatim>\<open>storeEntity\<close> returns an error without calling the client (the state is
  unchanged, so no default kind was substituted and stored), and the store tool
  called with type entity answers with an error result, again with the state unchanged.
\<close>

theorem storeEntity_rejects_unknown_kind:
  assumes "\<not> validEntityKinds (GetStringArg h args ''kind'' '''')"
  shows "(\<exists>msg. storeEntity h client args sourceAgent s = (Inl msg, s)) \<and>
         (GetStringArg h args ''type'' '''' = ''entity'' \<longrightarrow>
            IsError (fst (Store h client args s)) \<and> snd (Store h client args s) = s)"
  using assms
  by (auto simp: storeEntity_def Store_def storeNode_def NewError_def Let_def)

theorem storeEntity_rejects_unknown_kind_witness:
  "\<not> validEntityKinds (GetStringArg example_helpers
        [(''type'', AStr ''entity''), (''name'', AStr ''Acme''), (''kind'', AStr ''startup'')] ''kind'' '''')
   \<and> GetStringArg example_helpers
        [(''type'', AStr ''entity''), (''name'', AStr ''Acme''), (''kind'', AStr ''startup'')] ''type'' '''' = ''entity''
   \<and> (\<exists>msg. storeEntity example_helpers MockQuerier
          [(''type'', AStr ''entity''), (''name'', AStr ''Acme''), (''kind'', AStr ''startup'')] ''unknown'' []
        = (Inl msg, []))
   \<and> IsError (fst (Store example_helpers MockQuerier
        [(''type'', AStr ''entity''), (''name'', AStr ''Acme''), (''kind'', AStr ''startup'')] []))
   \<and> snd (Store example_helpers MockQuerier
        [(''type'', AStr ''entity''), (''name'', AStr ''Acme''), (''kind'', AStr ''startup'')] []) = []"
proof -
  have k: "\<not> validEntityKinds (GetStringArg example_helpers
        [(''type'', AStr ''entity''), (''name'', AStr ''Acme''), (''kind'', AStr ''startup'')] ''kind'' '''')"
    by (simp add: example_helpers_def example_GetStringArg_def validEntityKinds_def)
  have t: "GetStringArg example_helpers
        [(''type'', AStr ''entity''), (''name'', AStr ''Acme''), (''kind'', AStr ''startup'')] ''type'' '''' = ''entity''"
    by (simp add: example_helpers_def example_GetStringArg_def)
  show ?thesis
    using k t storeEntity_rejects_unknown_kind [OF k, of MockQuerier "''unknown''" "[]"]
    by simp
qed

subsection \<open>Storing a fact: coercion of category and confidence\<close>

text \<open>
  Claim C2. For every store_fact request (one with a content), an unknown category is
  replaced by general and a confidence outside (0, 1] by 0.8. The request never fails
  for these reasons: \<^verbatim>\<open>storeFact\<close> is exactly the client's \<^verbatim>\<open>StoreFact\<close> on a
  request that carries the coerced values, so the outcome and the stored fact are
  those of that request; its category is always one of the six categories and its
  confidence always lies in (0, 1].
\<close>

theorem storeFact_coerces:
  assumes "GetStringArg h args ''content'' '''' \<noteq> ''''"
  shows "\<exists>req. storeFact h client args sourceAgent sourceConversation s = StoreFact client req s
           \<and> StoreFactRequest.Content req = GetStringArg h args ''content'' ''''
           \<and> StoreFactRequest.Category req =
                (if validFactCategories (GetStringArg h args ''category'' ''general'')
                 then GetStringArg h args ''category'' ''general'' else ''general'')
           \<and> StoreFactRequest.Confidence req =
                (if 0 < GetFloat64Arg h args ''confidence'' (8 / 10)
                    \<and> GetFloat64Arg h args ''confidence'' (8 / 10) \<le> 1
                 then GetFloat64Arg h args ''confidence'' (8 / 10) else 8 / 10)
           \<and> StoreFactRequest.SourceAgent req = sourceAgent
           \<and> StoreFactRequest.SourceConversation req = sourceConversation
           \<and> validFactCategories (StoreFactRequest.Category req)
           \<and> 0 < StoreFactRequest.Confidence req \<and> StoreFactRequest.Confidence req \<le> 1"
  using assms by (auto simp: storeFact_def Let_def validFactCategories_def)

theorem storeFact_coerces_witness:
  "GetStringArg example_helpers
      [(''content'', AStr ''sky''), (''category'', AStr ''bogus''), (''confidence'', AFloat (3 / 2))]
      ''content'' '''' \<noteq> ''''
   \<and> storeFact example_helpers MockQuerier
        [(''content'', AStr ''sky''), (''category'', AStr ''bogus''), (''confidence'', AFloat (3 / 2))]
        ''agent'' '''' []
      = (Inr \<lparr>Fact.ID = ''fact:mock0001'', Fact.Content = ''sky'', Fact.Category = ''general'',
              Fact.Confidence = 8 / 10, Fact.SourceAgent = ''agent'',
              Fact.SourceConversation = '''', Fact.Valid = True,
              Fact.CreatedAt = 1000, Fact.UpdatedAt = 1000\<rparr>,
         [CStoreFact \<lparr>StoreFactRequest.Content = ''sky'', StoreFactRequest.Category = ''general'',
                      StoreFactRequest.Confidence = 8 / 10, StoreFactRequest.SourceAgent = ''agent'',
                      StoreFactRequest.SourceConversation = ''''\<rparr>])"
proof -
  have c: "GetStringArg example_helpers
      [(''content'', AStr ''sky''), (''category'', AStr ''bogus''), (''confidence'', AFloat (3 / 2))]
      ''content'' '''' \<noteq> ''''"
    by (simp add: example_helpers_def example_GetStringArg_def)
  from storeFact_coerces [OF c, of MockQuerier "''agent''" "''''" "[]"]
  obtain req where
    r: "storeFact example_helpers MockQuerier
          [(''content'', AStr ''sky''), (''category'', AStr ''bogus''), (''confidence'', AFloat (3 / 2))]
          ''agent'' '''' [] = StoreFact MockQuerier req []"
    and f: "StoreFactRequest.Content req = ''sky''" "StoreFactRequest.Category req = ''general''"
       "StoreFactRequest.Confidence req = 8 / 10" "StoreFactRequest.SourceAgent req = ''agent''"
       "StoreFactRequest.SourceConversation req = ''''"
    by (auto simp: example_helpers_def example_GetStringArg_def example_GetFloat64Arg_def
          validFactCategories_def)
  have "req = \<lparr>StoreFactRequest.Content = ''sky'', StoreFactRequest.Category = ''general'',
                StoreFactRequest.Confidence = 8 / 10, StoreFactRequest.SourceAgent = ''agent'',
                StoreFactRequest.SourceConversation = ''''\<rparr>"
    using f by (cases req) simp
  then show ?thesis
    using c r by (simp add: MockQuerier_def)
qed

subsection \<open>The store tool when the invalidation fails\<close>

text \<open>
  Claim C9. When a store call has stored its node (\<^verbatim>\<open>storeNode\<close> returned a non-empty
  id and no error, leaving the client in state \<open>s1\<close>) and the invalidates argument
  fails, because the referenced id lacks the prefix \<open>fact:\<close> or because
  \<^verbatim>\<open>InvalidateFact\<close> returns an error, the tool returns an error result. The final
  client state is \<open>s1\<close>, or \<open>s1\<close> after the attempted invalidation: the stored node
  stays, and neither \<^verbatim>\<open>AddRelationship\<close> nor \<^verbatim>\<open>IncrementCounter\<close> is applied.
\<close>

theorem Store_invalidation_failure:
  assumes "GetStringArg h args ''type'' '''' = nt" and "nt \<noteq> ''''"
      and "storeNode h client args nt s = ((nid, summ, None), s1)" and "nid \<noteq> ''''"
      and "GetStringArg h args ''invalidates'' '''' = oldID" and "oldID \<noteq> ''''"
      and "\<not> prefix ''fact:'' oldID \<or>
           (\<exists>e. fst (InvalidateFact client oldID nid (''Replaced by '' @ nid) s1) = Some e)"
  shows "IsError (fst (Store h client args s)) \<and>
         snd (Store h client args s) =
           (if prefix ''fact:'' oldID
            then snd (InvalidateFact client oldID nid (''Replaced by '' @ nid) s1)
            else s1)"
  using assms
  by (auto simp: Store_def handleInvalidation_def NewError_def Let_def
           split: prod.splits option.splits)

theorem Store_invalidation_failure_witness:
  "GetStringArg example_helpers example_store_args ''type'' '''' = ''fact''
   \<and> (\<exists>summ. storeNode example_helpers failing_invalidate_client example_store_args ''fact'' []
         = ((''fact:mock0001'', summ, None), [CStoreFact example_store_request]))
   \<and> GetStringArg example_helpers example_store_args ''invalidates'' '''' = ''fact:old123''
   \<and> fst (InvalidateFact failing_invalidate_client ''fact:old123'' ''fact:mock0001''
             (''Replaced by '' @ ''fact:mock0001'') [CStoreFact example_store_request])
        = Some ''fact not found''
   \<and> IsError (fst (Store example_helpers failing_invalidate_client example_store_args []))
   \<and> snd (Store example_helpers failing_invalidate_client example_store_args []) =
        [CStoreFact example_store_request,
         CInvalidateFact ''fact:old123'' ''fact:mock0001'' ''Replaced by fact:mock0001'']"
proof -
  have t: "GetStringArg example_helpers example_store_args ''type'' '''' = ''fact''"
    by (simp add: example_helpers_def example_GetStringArg_def example_store_args_def)
  have "\<exists>summ. storeNode example_helpers failing_invalidate_client example_store_args ''fact'' []
             = ((''fact:mock0001'', summ, None), [CStoreFact example_store_request])"
    by (simp add: storeNode_def storeFact_def example_helpers_def example_GetStringArg_def
          example_GetFloat64Arg_def example_store_args_def failing_invalidate_client_def
          MockQuerier_def validFactCategories_def example_store_request_def Let_def)
  then obtain summ where
    n: "storeNode example_helpers failing_invalidate_client example_store_args ''fact'' []
             = ((''fact:mock0001'', summ, None), [CStoreFact example_store_request])" ..
  have i: "GetStringArg example_helpers example_store_args ''invalidates'' '''' = ''fact:old123''"
    by (simp add: example_helpers_def example_GetStringArg_def example_store_args_def)
  have e: "\<not> prefix ''fact:'' ''fact:old123'' \<or>
           (\<exists>e. fst (InvalidateFact failing_invalidate_client ''fact:old123'' ''fact:mock0001''
                 (''Replaced by '' @ ''fact:mock0001'') [CStoreFact example_store_request]) = Some e)"
    by (simp add: failing_invalidate_client_def MockQuerier_def)
  show ?thesis
    using Store_invalidation_failure [OF t _ n _ i _ e] t n i
    by (simp add: failing_invalidate_client_def MockQuerier_def)
qed

subsection \<open>Bulk ingest: resolution of references inside the batch\<close>






text \<open>
  Phase 1 writes entry \<open>j\<close> of \<open>stored\<close> while it visits item \<open>j\<close> and at no other
  time, so after phase 1 the entry holds the id that \<^verbatim>\<open>storeNode\<close> assigned to
  item \<open>j\<close>, or the empty id of the initial entry when the item failed.
\<close>

lemma BulkStore_phase1_length:
  "BulkStore_phase1 h client items i stored errors tc s = ((stored', errors', tc'), s')
   \<Longrightarrow> length stored' = length stored"
proof (induction items arbitrary: i stored errors tc s)
  case Nil
  then show ?case by simp
next
  case (Cons raw rest)
  then show ?case
    by (cases raw) (auto simp: Let_def split: if_splits prod.splits option.splits)
qed

lemma BulkStore_phase1_before:
  "BulkStore_phase1 h client items i stored errors tc s = ((stored', errors', tc'), s')
   \<Longrightarrow> k < i \<Longrightarrow> stored' ! k = stored ! k"
proof (induction items arbitrary: i stored errors tc s)
  case Nil
  then show ?case by simp
next
  case (Cons raw rest)
  have step: "\<And>st er t z. BulkStore_phase1 h client rest (Suc i) st er t z = ((stored', errors', tc'), s')
                \<Longrightarrow> stored' ! k = st ! k"
    using Cons.IH [of "Suc i"] Cons.prems(2) by simp
  show ?case
  proof (cases raw)
    case (AMap itemArgs)
    show ?thesis
      using Cons.prems AMap
      by (auto simp: Let_def split: if_splits prod.splits option.splits dest!: step)
  qed (use Cons.prems in \<open>auto dest!: step\<close>)
qed

lemma BulkStore_phase1_after:
  "BulkStore_phase1 h client items i stored errors tc s = ((stored', errors', tc'), s')
   \<Longrightarrow> i + length items \<le> k \<Longrightarrow> stored' ! k = stored ! k"
proof (induction items arbitrary: i stored errors tc s)
  case Nil
  then show ?case by simp
next
  case (Cons raw rest)
  have step: "\<And>st er t z. BulkStore_phase1 h client rest (Suc i) st er t z = ((stored', errors', tc'), s')
                \<Longrightarrow> stored' ! k = st ! k"
    using Cons.IH [of "Suc i"] Cons.prems(2) by simp
  have ne: "i \<noteq> k" using Cons.prems(2) by simp
  show ?case
  proof (cases raw)
    case (AMap itemArgs)
    show ?thesis
      using Cons.prems AMap ne
      by (auto simp: Let_def split: if_splits prod.splits option.splits dest!: step)
  qed (use Cons.prems in \<open>auto dest!: step\<close>)
qed

lemma BulkStore_phase1_append:
  "BulkStore_phase1 h client (xs @ ys) i stored errors tc s =
     (case BulkStore_phase1 h client xs i stored errors tc s of
        ((st1, e1, tc1), s1) \<Rightarrow> BulkStore_phase1 h client ys (i + length xs) st1 e1 tc1 s1)"
proof (induction xs arbitrary: i stored errors tc s)
  case Nil
  show ?case by simp
next
  case (Cons raw rest)
  show ?case
    by (cases raw) (simp_all add: Cons.IH Let_def split: prod.splits option.splits)
qed

lemma BulkStore_phase1_records_id:
  assumes pre: "BulkStore_phase1 h client pre 0 stored0 [] [] s = ((st1, e1, tc1), s1)"
      and all: "BulkStore_phase1 h client (pre @ AMap itemArgs # post) 0 stored0 [] [] s
                  = ((stored, errs, tc), s')"
      and len: "length pre < length stored0"
      and node: "storeNode h client itemArgs (GetStringArg h itemArgs ''type'' '''') s1
                   = ((nid, summ, err), s2)"
  shows "nodeID (stored ! length pre) =
           (if GetStringArg h itemArgs ''type'' '''' \<noteq> '''' \<and> err = None \<and> nid \<noteq> ''''
            then nid else nodeID (stored0 ! length pre))"
proof -
  let ?j = "length pre"
  have st1j: "st1 ! ?j = stored0 ! ?j"
    using BulkStore_phase1_after [OF pre, of ?j] by simp
  have l1: "length st1 = length stored0"
    using BulkStore_phase1_length [OF pre] .
  obtain st2 e2 tc2 s3 where
    one: "BulkStore_phase1 h client [AMap itemArgs] ?j st1 e1 tc1 s1 = ((st2, e2, tc2), s3)"
    by (metis prod_cases3 surj_pair)
  have rest: "BulkStore_phase1 h client post (Suc ?j) st2 e2 tc2 s3 = ((stored, errs, tc), s')"
    using all pre one
    BulkStore_phase1_append [of h client pre "AMap itemArgs # post" 0 stored0 "[]" "[]" s]
    BulkStore_phase1_append [of h client "[AMap itemArgs]" post ?j st1 e1 tc1 s1]
    by simp
  have keep: "stored ! ?j = st2 ! ?j"
    using BulkStore_phase1_before [OF rest, of ?j] by simp
  have "nodeID (st2 ! ?j) =
           (if GetStringArg h itemArgs ''type'' '''' \<noteq> '''' \<and> err = None \<and> nid \<noteq> ''''
            then nid else nodeID (st1 ! ?j))"
    using one node len l1
    by (cases err) (auto simp: Let_def split: if_splits)
  then show ?thesis using keep st1j by simp
qed



subsection \<open>Sorting, the substrate and the parsers\<close>

lemma set_insert_less: "set (insert_less lt x xs) = insert x (set xs)"
  by (induction xs) auto

lemma set_insertion_sort: "set (insertion_sort lt xs) = set xs"
  by (induction xs) (auto simp: set_insert_less)

lemma mset_insert_less: "mset (insert_less lt x xs) = add_mset x (mset xs)"
  by (induction xs) auto

lemma mset_insertion_sort: "mset (insertion_sort lt xs) = mset xs"
  by (induction xs) (auto simp: mset_insert_less)

lemma sorted_insert_less:
  fixes f :: "'a \<Rightarrow> rat"
  shows "sorted (map f xs) \<Longrightarrow> sorted (map f (insert_less (\<lambda>a b. f a < f b) x xs))"
  by (induction xs) (auto simp: set_insert_less)

lemma sorted_insertion_sort:
  fixes f :: "'a \<Rightarrow> rat"
  shows "sorted (map f (insertion_sort (\<lambda>a b. f a < f b) xs))"
  by (induction xs) (auto simp: sorted_insert_less)

lemma example_helpers_sort_permutes:
  "mset (sort_Slice example_helpers lt xs) = mset xs"
  by (simp add: example_helpers_def mset_insertion_sort)

lemma example_helpers_sort_sorted:
  "sorted (map SearchResult.Distance
     (sort_Slice example_helpers (\<lambda>a b. SearchResult.Distance a < SearchResult.Distance b) xs))"
  by (simp add: example_helpers_def sorted_insertion_sort)

lemma set_order_rows: "set (order_rows ord rows) = set rows"
  by (auto simp: order_rows_def set_insertion_sort split: option.splits)

lemma set_limit_rows: "set (limit_rows lmt ofs rows) \<subseteq> set rows"
  by (auto simp: limit_rows_def split: option.splits dest: in_set_takeD in_set_dropD)

lemma joined_rows_from_base:
  assumes "joined_rows d q base = Inr joined" and "r \<in> set joined"
  shows "\<exists>b \<in> set base. \<exists>extra. r = b @ extra"
  using assms
  apply (auto simp: joined_rows_def split: option.splits dest!: in_set_takeD)
   apply (metis append_Nil2)
  apply blast
  done

lemma cozo_Query_fact_rows:
  assumes q: "cozo_Query d q = Inr rows"
      and rel: "q_relation q = ''mie_fact''"
      and hd: "q_head q = ''id'' # rest"
      and valid: "ColEq ''valid'' (ABool True) \<in> set (q_conds q)"
      and cnt: "\<not> q_count q"
      and row: "row \<in> set rows"
  shows "\<exists>f \<in> set (mie_fact d). Fact.Valid f \<and> row ! 0 = AStr (Fact.ID f)"
proof -
  let ?base = "map Fact_row (mie_fact d)"
  from q rel cnt obtain joined where
    j: "joined_rows d q ?base = Inr joined" and
    rows: "rows = map (\<lambda>row. map (index_map row) (q_head q))
                    (limit_rows (q_limit q) (q_offset q)
                       (order_rows (q_order q)
                          (filter (\<lambda>row. list_all (cond_holds row) (q_conds q)) joined)))"
    by (auto simp: cozo_Query_def relation_rows_def Let_def split: if_splits sum.splits)
  from row rows obtain r where
    r1: "r \<in> set (limit_rows (q_limit q) (q_offset q)
                       (order_rows (q_order q)
                          (filter (\<lambda>row. list_all (cond_holds row) (q_conds q)) joined)))"
    and r2: "row = map (index_map r) (q_head q)"
    by auto
  from r1 have r3: "r \<in> set joined" and r4: "list_all (cond_holds r) (q_conds q)"
    using set_limit_rows [of "q_limit q" "q_offset q"] set_order_rows by fastforce+
  from r4 valid have v: "map_of r ''valid'' = Some (ABool True)"
    by (auto simp: list_all_iff)
  from joined_rows_from_base [OF j r3] obtain f extra where
    f: "f \<in> set (mie_fact d)" and re: "r = Fact_row f @ extra"
    by auto
  have "Fact.Valid f" using v re by (simp add: Fact_row_def)
  moreover have "row ! 0 = AStr (Fact.ID f)"
    using r2 hd re by (simp add: index_map_def Fact_row_def)
  ultimately show ?thesis using f by blast
qed

lemma cozo_Query_row_length:
  assumes "cozo_Query d q = Inr rows" and "\<not> q_count q" and "row \<in> set rows"
  shows "length row = length (q_head q)"
  using assms
  by (auto simp: cozo_Query_def Let_def split: option.splits if_splits sum.splits)

lemma parseSearchResults_set:
  "parseSearchResults h nt rows acc = Some res \<Longrightarrow>
   set res = set acc \<union> {sr. \<exists>row \<in> set rows. parseSearchResult h nt row = Some sr}"
proof (induction rows arbitrary: acc)
  case Nil
  then show ?case by simp
next
  case (Cons row rows)
  then show ?case by (auto split: option.splits)
qed

lemma parseSearchResult_NodeType:
  "parseSearchResult h nt row = Some sr \<Longrightarrow> SearchResult.NodeType sr = nt"
  by (auto simp: parseSearchResult_def Let_def split: if_splits)

lemma parseSearchResult_fact_ID:
  "parseSearchResult h ''fact'' row = Some sr \<Longrightarrow> SearchResult.ID sr = toString h (row ! 0)"
  by (auto simp: parseSearchResult_def Let_def split: if_splits)

lemma parseSearchResult_Distance:
  assumes "parseSearchResult h nt row = Some sr"
      and "nt \<in> set [''fact'', ''decision'', ''entity'', ''event'']"
      and "length row > 4"
  shows "SearchResult.Distance sr = toFloat64 (row ! 4)"
  using assms by (auto simp: parseSearchResult_def Let_def split: if_splits)

lemma parseSearchResult_total:
  "4 \<le> length row \<Longrightarrow> \<exists>sr. parseSearchResult h nt row = Some sr"
  by (simp add: parseSearchResult_def Let_def)

lemma parseSearchResults_total:
  "\<forall>row \<in> set rows. \<exists>sr. parseSearchResult h nt row = Some sr
   \<Longrightarrow> \<exists>res. parseSearchResults h nt rows acc = Some res"
  by (induction rows arbitrary: acc) auto

lemma SemanticSearch_script_params:
  assumes "nt \<in> set [''fact'', ''decision'', ''entity'', ''event'']"
  shows "\<exists>sc a. SemanticSearch_script nt vec L = Some sc \<and> q_hnsw sc = Some a
           \<and> hn_index a = nt @ ''_embedding_idx'' \<and> hn_query a = vec
           \<and> hn_ef a = 200 \<and> hn_k a = go_int (L * 5) \<and> q_order sc = Some ''distance''
           \<and> q_limit sc = Some L"
  using assms by (auto simp: SemanticSearch_script_def)

lemma SemanticSearch_script_Some:
  "SemanticSearch_script nt vec L = Some sc \<Longrightarrow> nt \<in> set [''fact'', ''decision'', ''entity'', ''event'']"
  by (auto simp: SemanticSearch_script_def split: if_splits)

lemma SemanticSearch_script_head:
  "SemanticSearch_script nt vec L = Some sc \<Longrightarrow> length (q_head sc) = 5 \<and> \<not> q_count sc"
  by (auto simp: SemanticSearch_script_def split: if_splits)

lemma go_int_id: "- (2 ^ 63) \<le> x \<Longrightarrow> x < 2 ^ 63 \<Longrightarrow> go_int x = x"
  by (simp add: go_int_def)

lemma SemanticSearch_Inr:
  assumes "SemanticSearch h r query nodeTypes limit0 = Inr results"
  shows "\<exists>g vec collected.
           embedder_GenerateQuery r = Some g \<and> g query = Inr vec
           \<and> SemanticSearch_loop h r vec (if limit0 \<le> 0 then 10 else limit0)
                (if nodeTypes = [] then [''fact'', ''decision'', ''entity'', ''event''] else nodeTypes) []
               = Inr collected
           \<and> results = take (nat (if limit0 \<le> 0 then 10 else limit0))
                          (sort_Slice h (\<lambda>a b. SearchResult.Distance a < SearchResult.Distance b) collected)"
proof (cases "embedder_GenerateQuery r")
  case None
  then show ?thesis using assms by (simp add: SemanticSearch_def)
next
  case (Some g)
  show ?thesis
  proof (cases "g query")
    case (Inl err)
    then show ?thesis using assms Some by (simp add: SemanticSearch_def)
  next
    case (Inr vec)
    let ?L = "if limit0 \<le> 0 then 10 else limit0"
    let ?nts = "if nodeTypes = [] then [''fact'', ''decision'', ''entity'', ''event''] else nodeTypes"
    show ?thesis
    proof (cases "SemanticSearch_loop h r vec ?L ?nts []")
      case (Inl e)
      then show ?thesis using assms Some Inr by (simp add: SemanticSearch_def Let_def)
    next
      case (Inr collected)
      let ?sorted = "sort_Slice h (\<lambda>a b. SearchResult.Distance a < SearchResult.Distance b) collected"
      have "results = take (nat ?L) ?sorted"
        using assms Some \<open>g query = Inr vec\<close> Inr
        by (auto simp: SemanticSearch_def Let_def split: if_splits)
      then show ?thesis using Some \<open>g query = Inr vec\<close> Inr by blast
    qed
  qed
qed

lemma ExactSearch_Inr:
  assumes "ExactSearch h r query nodeTypes limit0 = Inr results"
  shows "\<exists>collected.
           ExactSearch_loop h r (escapeDatalog h query) (if limit0 \<le> 0 then 10 else limit0)
                (if nodeTypes = [] then [''fact'', ''decision'', ''entity'', ''event'', ''topic'']
                 else nodeTypes) []
               = Inr collected
           \<and> results = take (nat (if limit0 \<le> 0 then 10 else limit0)) collected"
proof -
  let ?L = "if limit0 \<le> 0 then 10 else limit0"
  let ?nts = "if nodeTypes = [] then [''fact'', ''decision'', ''entity'', ''event'', ''topic''] else nodeTypes"
  show ?thesis
  proof (cases "ExactSearch_loop h r (escapeDatalog h query) ?L ?nts []")
    case (Inl e)
    then show ?thesis using assms by (simp add: ExactSearch_def Let_def)
  next
    case (Inr collected)
    have "results = take (nat ?L) collected"
      using assms Inr by (auto simp: ExactSearch_def Let_def split: if_splits)
    then show ?thesis using Inr by blast
  qed
qed

lemma SemanticSearch_loop_returns:
  "\<exists>res. SemanticSearch_loop h (cozo_Reader d gen) vec L nts acc = Inr res"
proof (induction nts arbitrary: acc)
  case Nil
  show ?case by simp
next
  case (Cons nt nts)
  show ?case
  proof (cases "SemanticSearch_script nt vec L")
    case None
    then show ?thesis using Cons by simp
  next
    case (Some sc)
    show ?thesis
    proof (cases "cozo_Query d sc")
      case (Inl err)
      then show ?thesis using Cons Some by (simp add: cozo_Reader_def)
    next
      case (Inr rows)
      have "\<forall>row \<in> set rows. \<exists>sr. parseSearchResult h nt row = Some sr"
        using cozo_Query_row_length [OF Inr] SemanticSearch_script_head [OF Some]
              parseSearchResult_total [of _ h nt]
        by simp
      from parseSearchResults_total [OF this, of acc] obtain acc' where
        "parseSearchResults h nt rows acc = Some acc'" by blast
      then show ?thesis using Cons [of acc'] Some Inr by (simp add: cozo_Reader_def)
    qed
  qed
qed

text \<open>
  On the substrate a semantic search returns results whenever the query vector can be
  generated: no query of the reader yields a row short enough to make the parser panic.
\<close>

lemma SemanticSearch_returns:
  assumes "g query = Inr vec"
  shows "\<exists>results. SemanticSearch h (cozo_Reader d (Some g)) query nodeTypes limit0 = Inr results"
proof -
  let ?L = "if limit0 \<le> 0 then 10 else limit0"
  let ?nts = "if length nodeTypes = 0 then [''fact'', ''decision'', ''entity'', ''event''] else nodeTypes"
  obtain res where "SemanticSearch_loop h (cozo_Reader d (Some g)) vec ?L ?nts [] = Inr res"
    using SemanticSearch_loop_returns by blast
  then show ?thesis
    using assms by (simp add: SemanticSearch_def Let_def cozo_Reader_def)
qed

lemma ExactSearch_script_parses:
  "ExactSearch_script nt escaped L = Some sc \<Longrightarrow> length row = length (q_head sc)
   \<Longrightarrow> (\<exists>sr. parseSearchResult h nt row = Some sr) \<and> \<not> q_count sc"
  by (auto simp: ExactSearch_script_def parseSearchResult_def Let_def split: if_splits)

lemma ExactSearch_loop_returns:
  "\<exists>res. ExactSearch_loop h (cozo_Reader d gen) escaped L nts acc = Inr res"
proof (induction nts arbitrary: acc)
  case Nil
  show ?case by simp
next
  case (Cons nt nts)
  show ?case
  proof (cases "ExactSearch_script nt escaped L")
    case None
    then show ?thesis using Cons by simp
  next
    case (Some sc)
    have nc: "\<not> q_count sc"
      using Some by (auto simp: ExactSearch_script_def split: if_splits)
    show ?thesis
    proof (cases "cozo_Query d sc")
      case (Inl err)
      then show ?thesis using Cons Some by (simp add: cozo_Reader_def)
    next
      case (Inr rows)
      have "\<forall>row \<in> set rows. \<exists>sr. parseSearchResult h nt row = Some sr"
        using cozo_Query_row_length [OF Inr nc] ExactSearch_script_parses [OF Some]
        by blast
      from parseSearchResults_total [OF this, of acc] obtain acc' where
        "parseSearchResults h nt rows acc = Some acc'" by blast
      then show ?thesis using Cons [of acc'] Some Inr by (simp add: cozo_Reader_def)
    qed
  qed
qed

lemma ExactSearch_returns:
  "\<exists>results. ExactSearch h (cozo_Reader d gen) query nodeTypes limit0 = Inr results"
proof -
  let ?L = "if limit0 \<le> 0 then 10 else limit0"
  let ?nts = "if length nodeTypes = 0 then [''fact'', ''decision'', ''entity'', ''event'', ''topic'']
              else nodeTypes"
  obtain res where "ExactSearch_loop h (cozo_Reader d gen) (escapeDatalog h query) ?L ?nts [] = Inr res"
    using ExactSearch_loop_returns by blast
  then show ?thesis
    by (simp add: ExactSearch_def Let_def)
qed

subsection \<open>Search returns valid facts only\<close>

lemma SemanticSearch_fact_row_valid:
  assumes sc: "SemanticSearch_script nt vec L = Some sc"
      and q: "cozo_Query d sc = Inr rows"
      and row: "row \<in> set rows"
      and p: "parseSearchResult h nt row = Some sr"
      and nt: "SearchResult.NodeType sr = ''fact''"
  shows "\<exists>f \<in> set (mie_fact d). Fact.ID f = SearchResult.ID sr \<and> Fact.Valid f"
proof -
  have ntf: "nt = ''fact''"
    using parseSearchResult_NodeType [OF p] nt by simp
  have "\<exists>f \<in> set (mie_fact d). Fact.Valid f \<and> row ! 0 = AStr (Fact.ID f)"
    using sc ntf
    by (intro cozo_Query_fact_rows [OF q _ _ _ _ row, of "[''content'', ''category'', ''confidence'', ''distance'']"])
       (auto simp: SemanticSearch_script_def)
  then show ?thesis
    using parseSearchResult_fact_ID [of h row sr] p ntf by (auto simp: toString_def)
qed

lemma ExactSearch_fact_row_valid:
  assumes sc: "ExactSearch_script nt escaped L = Some sc"
      and q: "cozo_Query d sc = Inr rows"
      and row: "row \<in> set rows"
      and p: "parseSearchResult h nt row = Some sr"
      and nt: "SearchResult.NodeType sr = ''fact''"
  shows "\<exists>f \<in> set (mie_fact d). Fact.ID f = SearchResult.ID sr \<and> Fact.Valid f"
proof -
  have ntf: "nt = ''fact''"
    using parseSearchResult_NodeType [OF p] nt by simp
  have "\<exists>f \<in> set (mie_fact d). Fact.Valid f \<and> row ! 0 = AStr (Fact.ID f)"
    using sc ntf
    by (intro cozo_Query_fact_rows [OF q _ _ _ _ row, of "[''content'', ''category'', ''confidence'']"])
       (auto simp: ExactSearch_script_def)
  then show ?thesis
    using parseSearchResult_fact_ID [of h row sr] p ntf by (auto simp: toString_def)
qed

lemma SemanticSearch_loop_valid:
  assumes "SemanticSearch_loop h (cozo_Reader d gen) vec L nts acc = Inr res"
      and "\<forall>sr \<in> set acc. SearchResult.NodeType sr = ''fact'' \<longrightarrow>
             (\<exists>f \<in> set (mie_fact d). Fact.ID f = SearchResult.ID sr \<and> Fact.Valid f)"
  shows "\<forall>sr \<in> set res. SearchResult.NodeType sr = ''fact'' \<longrightarrow>
             (\<exists>f \<in> set (mie_fact d). Fact.ID f = SearchResult.ID sr \<and> Fact.Valid f)"
  using assms
proof (induction nts arbitrary: acc)
  case Nil
  then show ?case by simp
next
  case (Cons nt nts)
  show ?case
  proof (cases "SemanticSearch_script nt vec L")
    case None
    then show ?thesis using Cons by simp
  next
    case (Some sc)
    show ?thesis
    proof (cases "cozo_Query d sc")
      case (Inl err)
      then show ?thesis using Cons Some by (simp add: cozo_Reader_def)
    next
      case (Inr rows)
      show ?thesis
      proof (cases "parseSearchResults h nt rows acc")
        case None
        then show ?thesis using Cons.prems Some Inr by (simp add: cozo_Reader_def)
      next
        case (Some acc')
        have loop: "SemanticSearch_loop h (cozo_Reader d gen) vec L nts acc' = Inr res"
          using Cons.prems(1) \<open>SemanticSearch_script nt vec L = Some sc\<close> Inr Some
          by (simp add: cozo_Reader_def)
        have "\<forall>sr \<in> set acc'. SearchResult.NodeType sr = ''fact'' \<longrightarrow>
             (\<exists>f \<in> set (mie_fact d). Fact.ID f = SearchResult.ID sr \<and> Fact.Valid f)"
          using parseSearchResults_set [OF Some] Cons.prems(2)
                SemanticSearch_fact_row_valid [OF \<open>SemanticSearch_script nt vec L = Some sc\<close> Inr]
          by blast
        then show ?thesis using Cons.IH [OF loop] by blast
      qed
    qed
  qed
qed

lemma ExactSearch_loop_valid:
  assumes "ExactSearch_loop h (cozo_Reader d gen) escaped L nts acc = Inr res"
      and "\<forall>sr \<in> set acc. SearchResult.NodeType sr = ''fact'' \<longrightarrow>
             (\<exists>f \<in> set (mie_fact d). Fact.ID f = SearchResult.ID sr \<and> Fact.Valid f)"
  shows "\<forall>sr \<in> set res. SearchResult.NodeType sr = ''fact'' \<longrightarrow>
             (\<exists>f \<in> set (mie_fact d). Fact.ID f = SearchResult.ID sr \<and> Fact.Valid f)"
  using assms
proof (induction nts arbitrary: acc)
  case Nil
  then show ?case by simp
next
  case (Cons nt nts)
  show ?case
  proof (cases "ExactSearch_script nt escaped L")
    case None
    then show ?thesis using Cons by simp
  next
    case (Some sc)
    show ?thesis
    proof (cases "cozo_Query d sc")
      case (Inl err)
      then show ?thesis using Cons Some by (simp add: cozo_Reader_def)
    next
      case (Inr rows)
      show ?thesis
      proof (cases "parseSearchResults h nt rows acc")
        case None
        then show ?thesis using Cons.prems Some Inr by (simp add: cozo_Reader_def)
      next
        case (Some acc')
        have loop: "ExactSearch_loop h (cozo_Reader d gen) escaped L nts acc' = Inr res"
          using Cons.prems(1) \<open>ExactSearch_script nt escaped L = Some sc\<close> Inr Some
          by (simp add: cozo_Reader_def)
        have "\<forall>sr \<in> set acc'. SearchResult.NodeType sr = ''fact'' \<longrightarrow>
             (\<exists>f \<in> set (mie_fact d). Fact.ID f = SearchResult.ID sr \<and> Fact.Valid f)"
          using parseSearchResults_set [OF Some] Cons.prems(2)
                ExactSearch_fact_row_valid [OF \<open>ExactSearch_script nt escaped L = Some sc\<close> Inr]
          by blast
        then show ?thesis using Cons.IH [OF loop] by blast
      qed
    qed
  qed
qed

text \<open>
  Claim C3. Every fact returned by semantic search and every fact returned by exact
  search is a fact whose \<open>valid\<close> column is true: a result of node type fact carries the
  id of a row of \<open>mie_fact\<close> with \<open>valid = true\<close>, so an invalidated fact appears in
  the results of neither operator. The scripts of both operators carry the condition
  \<^verbatim>\<open>valid = true\<close> for facts; the substrate evaluates them. (The result struct has no
  validity field of its own: its metadata holds the id, the content and the category.)
  The hypothesis on \<^verbatim>\<open>sort.Slice\<close> is that it permutes its slice.
\<close>

theorem search_returns_valid_facts_only:
  assumes srt: "\<And>xs. mset (sort_Slice h (\<lambda>a b. SearchResult.Distance a < SearchResult.Distance b) xs) = mset xs"
      and res: "SemanticSearch h (cozo_Reader d gen) query nodeTypes limit = Inr results
                \<or> ExactSearch h (cozo_Reader d gen) query nodeTypes limit = Inr results"
  shows "\<forall>sr \<in> set results. SearchResult.NodeType sr = ''fact'' \<longrightarrow>
           (\<exists>f \<in> set (mie_fact d). Fact.ID f = SearchResult.ID sr \<and> Fact.Valid f)"
proof -
  have set_srt: "\<And>xs. set (sort_Slice h (\<lambda>a b. SearchResult.Distance a < SearchResult.Distance b) xs) = set xs"
    using srt by (metis set_mset_mset)
  from res show ?thesis
  proof
    assume "SemanticSearch h (cozo_Reader d gen) query nodeTypes limit = Inr results"
    from SemanticSearch_Inr [OF this] obtain vec L nts collected where
      loop: "SemanticSearch_loop h (cozo_Reader d gen) vec L nts [] = Inr collected" and
      r: "results = take (nat L) (sort_Slice h (\<lambda>a b. SearchResult.Distance a < SearchResult.Distance b) collected)"
      by blast
    have sub: "set results \<subseteq> set collected"
      using r set_srt [of collected] set_take_subset by metis
    show ?thesis
      using SemanticSearch_loop_valid [OF loop] sub by auto
  next
    assume "ExactSearch h (cozo_Reader d gen) query nodeTypes limit = Inr results"
    from ExactSearch_Inr [OF this] obtain esc L nts collected where
      loop: "ExactSearch_loop h (cozo_Reader d gen) esc L nts [] = Inr collected" and
      r: "results = take (nat L) collected"
      by blast
    have sub: "set results \<subseteq> set collected"
      using r set_take_subset by metis
    show ?thesis
      using ExactSearch_loop_valid [OF loop] sub by auto
  qed
qed

theorem search_returns_valid_facts_only_witness:
  "SemanticSearch example_helpers (cozo_Reader example_db (Some example_embedder)) ''water'' [] 0
     = Inr [example_result_entity, example_result_fact]
   \<and> (\<exists>f. f \<in> set (mie_fact example_db) \<and> Fact.ID f = ''fact:b'' \<and> Fact.Valid f)
   \<and> example_fact_invalidated \<in> set (mie_fact example_db)
   \<and> Fact.ID example_fact_invalidated \<notin> SearchResult.ID ` set [example_result_entity, example_result_fact]"
proof -
  have res: "SemanticSearch example_helpers (cozo_Reader example_db (Some example_embedder)) ''water'' [] 0
     = Inr [example_result_entity, example_result_fact]"
    by code_simp
  have "\<forall>sr \<in> set [example_result_entity, example_result_fact].
          SearchResult.NodeType sr = ''fact'' \<longrightarrow>
            (\<exists>f \<in> set (mie_fact example_db). Fact.ID f = SearchResult.ID sr \<and> Fact.Valid f)"
    using search_returns_valid_facts_only [OF example_helpers_sort_permutes disjI1 [OF res]] .
  then have "\<exists>f \<in> set (mie_fact example_db). Fact.ID f = ''fact:b'' \<and> Fact.Valid f"
    by (simp add: example_result_fact_def)
  then show ?thesis
    using res
    by (auto simp: example_db_def example_fact_invalidated_def example_result_fact_def
          example_result_entity_def)
qed

subsection \<open>Semantic search: collect, sort, truncate\<close>

lemma SemanticSearch_loop_collects:
  "SemanticSearch_loop h r vec L nts acc = Inr res \<Longrightarrow>
   set res = set acc \<union>
     {sr. \<exists>nt \<in> set nts. \<exists>sc rows row.
            SemanticSearch_script nt vec L = Some sc \<and> backend_Query r sc = Inr rows
            \<and> row \<in> set rows \<and> parseSearchResult h nt row = Some sr}"
proof (induction nts arbitrary: acc)
  case Nil
  then show ?case by simp
next
  case (Cons nt nts)
  show ?case
  proof (cases "SemanticSearch_script nt vec L")
    case None
    then show ?thesis using Cons by auto
  next
    case (Some sc)
    show ?thesis
    proof (cases "backend_Query r sc")
      case (Inl err)
      then show ?thesis using Cons Some by auto
    next
      case (Inr rows)
      show ?thesis
      proof (cases "parseSearchResults h nt rows acc")
        case None
        then show ?thesis using Cons.prems Some Inr by simp
      next
        case (Some acc')
        have loop: "SemanticSearch_loop h r vec L nts acc' = Inr res"
          using Cons.prems \<open>SemanticSearch_script nt vec L = Some sc\<close> Inr Some by simp
        show ?thesis
          using Cons.IH [OF loop] parseSearchResults_set [OF Some]
                \<open>SemanticSearch_script nt vec L = Some sc\<close> Inr
          by auto
      qed
    qed
  qed
qed

text \<open>
  Claim C4. A semantic search that returns results has generated the query vector and,
  with \<open>L\<close> the limit (10 when the caller gives none), formats for each of the variants
  fact, decision, entity, event a script that queries the variant's index with
  \<open>ef = 200\<close> and \<open>k = 5 \<cdot> L\<close> (the product is a Go \<^verbatim>\<open>int\<close>: it is \<open>5 \<cdot> L\<close> whenever
  that fits 64 bits). The parsed rows of the successful queries of all requested
  variants are collected, each with the distance of its row; the collection is sorted
  by ascending distance and cut to at most \<open>L\<close> results. The hypotheses on
  \<^verbatim>\<open>sort.Slice\<close> are that it permutes its slice and leaves it sorted by the distance.
\<close>

theorem SemanticSearch_collects_sorts_truncates:
  assumes perm: "\<And>xs. mset (sort_Slice h (\<lambda>a b. SearchResult.Distance a < SearchResult.Distance b) xs) = mset xs"
      and srt: "\<And>xs. sorted (map SearchResult.Distance
                          (sort_Slice h (\<lambda>a b. SearchResult.Distance a < SearchResult.Distance b) xs))"
      and res: "SemanticSearch h r query nodeTypes limit0 = Inr results"
      and L: "L = (if limit0 \<le> 0 then 10 else limit0)"
      and nts: "nts = (if nodeTypes = [] then [''fact'', ''decision'', ''entity'', ''event''] else nodeTypes)"
  shows "\<exists>g vec collected.
           embedder_GenerateQuery r = Some g \<and> g query = Inr vec
           \<and> (\<forall>nt \<in> set [''fact'', ''decision'', ''entity'', ''event''].
                 \<exists>sc a. SemanticSearch_script nt vec L = Some sc \<and> q_hnsw sc = Some a
                       \<and> hn_index a = nt @ ''_embedding_idx'' \<and> hn_query a = vec
                       \<and> hn_ef a = 200 \<and> hn_k a = go_int (L * 5)
                       \<and> (L * 5 < 2 ^ 63 \<longrightarrow> hn_k a = 5 * L))
           \<and> set collected =
                {sr. \<exists>nt \<in> set nts. \<exists>sc rows row.
                       SemanticSearch_script nt vec L = Some sc \<and> backend_Query r sc = Inr rows
                       \<and> row \<in> set rows \<and> parseSearchResult h nt row = Some sr
                       \<and> (length row > 4 \<longrightarrow> SearchResult.Distance sr = toFloat64 (row ! 4))}
           \<and> results = take (nat L)
                 (sort_Slice h (\<lambda>a b. SearchResult.Distance a < SearchResult.Distance b) collected)
           \<and> sorted (map SearchResult.Distance results)
           \<and> int (length results) \<le> L
           \<and> set results \<subseteq> set collected"
proof -
  let ?lt = "\<lambda>a b. SearchResult.Distance a < SearchResult.Distance b"
  from SemanticSearch_Inr [OF res] obtain g vec collected where
    g: "embedder_GenerateQuery r = Some g" and v: "g query = Inr vec" and
    loop: "SemanticSearch_loop h r vec L nts [] = Inr collected" and
    r: "results = take (nat L) (sort_Slice h ?lt collected)"
    unfolding L nts by blast
  have Lpos: "0 < L" using L by (simp split: if_splits)
  have params: "\<forall>nt \<in> set [''fact'', ''decision'', ''entity'', ''event''].
                 \<exists>sc a. SemanticSearch_script nt vec L = Some sc \<and> q_hnsw sc = Some a
                       \<and> hn_index a = nt @ ''_embedding_idx'' \<and> hn_query a = vec
                       \<and> hn_ef a = 200 \<and> hn_k a = go_int (L * 5)
                       \<and> (L * 5 < 2 ^ 63 \<longrightarrow> hn_k a = 5 * L)"
  proof
    fix nt assume nt: "nt \<in> set [''fact'', ''decision'', ''entity'', ''event'']"
    from SemanticSearch_script_params [OF nt, of vec L] obtain sc a where
      a: "SemanticSearch_script nt vec L = Some sc" "q_hnsw sc = Some a"
         "hn_index a = nt @ ''_embedding_idx''" "hn_query a = vec"
         "hn_ef a = 200" "hn_k a = go_int (L * 5)"
      by blast
    have "L * 5 < 2 ^ 63 \<longrightarrow> go_int (L * 5) = 5 * L"
      using Lpos go_int_id [of "L * 5"] by (simp add: mult.commute)
    then show "\<exists>sc a. SemanticSearch_script nt vec L = Some sc \<and> q_hnsw sc = Some a
                       \<and> hn_index a = nt @ ''_embedding_idx'' \<and> hn_query a = vec
                       \<and> hn_ef a = 200 \<and> hn_k a = go_int (L * 5)
                       \<and> (L * 5 < 2 ^ 63 \<longrightarrow> hn_k a = 5 * L)"
      using a by auto
  qed
  have coll: "set collected =
                {sr. \<exists>nt \<in> set nts. \<exists>sc rows row.
                       SemanticSearch_script nt vec L = Some sc \<and> backend_Query r sc = Inr rows
                       \<and> row \<in> set rows \<and> parseSearchResult h nt row = Some sr
                       \<and> (length row > 4 \<longrightarrow> SearchResult.Distance sr = toFloat64 (row ! 4))}"
    using SemanticSearch_loop_collects [OF loop]
          parseSearchResult_Distance SemanticSearch_script_Some
    by (auto; blast)
  have s: "sorted (map SearchResult.Distance results)"
    unfolding r using srt [of collected] by (simp add: take_map [symmetric])
  have len: "int (length results) \<le> L"
    unfolding r using Lpos by simp
  have sub: "set results \<subseteq> set collected"
    using r perm [of collected] by (metis set_mset_mset set_take_subset)
  show ?thesis
    using g v params coll r s len sub by blast
qed

theorem SemanticSearch_collects_sorts_truncates_witness:
  "SemanticSearch example_helpers (cozo_Reader example_db (Some example_embedder)) ''water''
      [''fact'', ''entity''] 1
     = Inr [example_result_entity]
   \<and> sorted (map SearchResult.Distance [example_result_entity])
   \<and> int (length [example_result_entity]) \<le> 1
   \<and> (\<exists>sc a. SemanticSearch_script ''fact'' [1, 0] 1 = Some sc \<and> q_hnsw sc = Some a
          \<and> hn_ef a = 200 \<and> hn_k a = 5)"
proof -
  have res: "SemanticSearch example_helpers (cozo_Reader example_db (Some example_embedder)) ''water''
      [''fact'', ''entity''] 1 = Inr [example_result_entity]"
    by code_simp
  have L: "(1::int) = (if (1::int) \<le> 0 then 10 else 1)"
    by simp
  have N: "[''fact'', ''entity''] =
             (if [''fact'', ''entity''] = [] then [''fact'', ''decision'', ''entity'', ''event'']
              else [''fact'', ''entity''])"
    by simp
  from SemanticSearch_collects_sorts_truncates
         [OF example_helpers_sort_permutes example_helpers_sort_sorted res L N]
  obtain g vec collected where
    g: "embedder_GenerateQuery (cozo_Reader example_db (Some example_embedder)) = Some g"
       "g ''water'' = Inr vec"
    and p: "\<forall>nt \<in> set [''fact'', ''decision'', ''entity'', ''event''].
                 \<exists>sc a. SemanticSearch_script nt vec 1 = Some sc
                       \<and> q_hnsw sc = Some a
                       \<and> hn_index a = nt @ ''_embedding_idx'' \<and> hn_query a = vec
                       \<and> hn_ef a = 200 \<and> hn_k a = go_int (1 * 5)
                       \<and> ((1::int) * 5 < 2 ^ 63 \<longrightarrow> hn_k a = 5 * 1)"
    and s: "sorted (map SearchResult.Distance [example_result_entity])"
    and l: "int (length [example_result_entity]) \<le> 1"
    by blast
  have vec: "vec = [1, 0]"
    using g by (simp add: cozo_Reader_def example_embedder_def)
  from p have "\<exists>sc a. SemanticSearch_script ''fact'' vec 1 = Some sc \<and> q_hnsw sc = Some a
          \<and> hn_ef a = 200 \<and> hn_k a = 5"
    by (auto simp: SemanticSearch_script_def)
  then show ?thesis using res s l vec by simp
qed

subsection \<open>List: sort field and limit\<close>

text \<open>
  Claim C8, as stated, fails on \<^verbatim>\<open>ListNodes\<close>: with the unknown sort field \<open>bogus\<close> and
  limit 500 the query is ordered by \<open>-bogus\<close>, not by \<open>created_at\<close>, and its limit is 500,
  above 100.
\<close>

theorem ListNodes_unknown_sort_by_counterexample:
  "q_order (ListNodes_script example_helpers example_list_options) = Some ''-bogus''
   \<and> q_order (ListNodes_script example_helpers example_list_options) \<noteq> Some ''-created_at''
   \<and> q_limit (ListNodes_script example_helpers example_list_options) = Some 500
   \<and> \<not> (500 :: int) \<le> 100"
  by (simp add: ListNodes_script_def example_list_options_def Let_def)

text \<open>
  Claim C8, amended. In the query of \<^verbatim>\<open>ListNodes\<close>, an empty sort field falls back to
  \<open>created_at\<close> and any other sort field is used as given (descending unless the order is
  \<open>asc\<close>); a limit that is not positive becomes 20 and a positive limit is used as given.
\<close>

theorem ListNodes_script_sort_and_limit:
  "q_order (ListNodes_script h opts) =
     Some ((if SortOrder opts \<noteq> ''asc'' then ''-'' else '''')
           @ (if SortBy opts = '''' then ''created_at'' else SortBy opts))
   \<and> q_limit (ListNodes_script h opts) = Some (if Limit opts \<le> 0 then 20 else Limit opts)"
  by (simp add: ListNodes_script_def Let_def)

theorem ListNodes_script_sort_and_limit_witness:
  "q_order (ListNodes_script example_helpers example_list_defaults) = Some ''-created_at''
   \<and> q_limit (ListNodes_script example_helpers example_list_defaults) = Some 20"
  using ListNodes_script_sort_and_limit [of example_helpers example_list_defaults]
  by (simp add: example_list_defaults_def)

subsection \<open>Traversals over fact_entity\<close>

lemma parseNode_Fact_row:
  "parseNode h ''fact''
     [index_map (Fact_row f) ''id'', index_map (Fact_row f) ''content'',
      index_map (Fact_row f) ''category'', index_map (Fact_row f) ''confidence'',
      index_map (Fact_row f) ''source_agent'', index_map (Fact_row f) ''source_conversation'',
      index_map (Fact_row f) ''valid'', index_map (Fact_row f) ''created_at'',
      index_map (Fact_row f) ''updated_at'']
   = Some (NFact f)"
  by (simp add: parseNode_def Fact_row_def index_map_def toString_def toFloat64_def toBool_def
        toInt64_def)

lemma parseNode_Entity_row:
  "parseNode h ''entity''
     [index_map (Entity_row e) ''id'', index_map (Entity_row e) ''name'',
      index_map (Entity_row e) ''kind'', index_map (Entity_row e) ''description'',
      index_map (Entity_row e) ''source_agent'', index_map (Entity_row e) ''created_at'',
      index_map (Entity_row e) ''updated_at'']
   = Some (NEntity e)"
  by (simp add: parseNode_def Entity_row_def index_map_def toString_def toInt64_def)

lemma Fact_row_id: "map_of (Fact_row f) ''id'' = Some (AStr (Fact.ID f))"
  by (simp add: Fact_row_def)

lemma Entity_row_id: "map_of (Entity_row e) ''id'' = Some (AStr (Entity.ID e))"
  by (simp add: Entity_row_def)

lemma GetFactsAboutEntity_cozo:
  assumes "escapeDatalog h entityID = entityID"
  shows "\<exists>facts. GetFactsAboutEntity h (cozo_Reader d gen) entityID = Inr facts
           \<and> set facts = {f \<in> set (mie_fact d). (Fact.ID f, entityID) \<in> set (mie_fact_entity d)}"
  using assms
  apply (simp add: GetFactsAboutEntity_def cozo_Reader_def cozo_Query_def relation_rows_def
        relation_columns_def Fact_row_def [of zero_Fact] order_column_def joined_rows_def
        edge_rows_def limit_rows_def order_rows_def)
  apply (auto simp: parseNode_Fact_row Fact_row_id)
  done

lemma GetRelatedEntities_cozo:
  assumes "escapeDatalog h factID = factID"
  shows "\<exists>entities. GetRelatedEntities h (cozo_Reader d gen) factID = Inr entities
           \<and> set entities = {e \<in> set (mie_entity d). (factID, Entity.ID e) \<in> set (mie_fact_entity d)}"
  using assms
  apply (simp add: GetRelatedEntities_def cozo_Reader_def cozo_Query_def relation_rows_def
        relation_columns_def Entity_row_def [of zero_Entity] order_column_def joined_rows_def
        edge_rows_def limit_rows_def order_rows_def)
  apply (auto simp: parseNode_Entity_row Entity_row_id)
  done

text \<open>
  Claim C5. Traversal symmetry over the relation \<open>fact_entity\<close>: for every fact \<open>f\<close> of
  \<open>mie_fact\<close> and every entity \<open>e\<close> of \<open>mie_entity\<close> (whose ids the escaping of literals
  leaves as they are), both traversals succeed and \<open>e\<close> is among the related entities of
  \<open>f\<close> if and only if \<open>f\<close> is among the facts about \<open>e\<close>.
\<close>

theorem traversal_symmetry:
  assumes "f \<in> set (mie_fact d)" and "e \<in> set (mie_entity d)"
      and "escapeDatalog h (Fact.ID f) = Fact.ID f"
      and "escapeDatalog h (Entity.ID e) = Entity.ID e"
  shows "\<exists>entities facts.
           GetRelatedEntities h (cozo_Reader d gen) (Fact.ID f) = Inr entities
           \<and> GetFactsAboutEntity h (cozo_Reader d gen) (Entity.ID e) = Inr facts
           \<and> (e \<in> set entities \<longleftrightarrow> f \<in> set facts)"
proof -
  from GetRelatedEntities_cozo [OF assms(3), of d gen] obtain entities where
    es: "GetRelatedEntities h (cozo_Reader d gen) (Fact.ID f) = Inr entities"
        "set entities = {e \<in> set (mie_entity d). (Fact.ID f, Entity.ID e) \<in> set (mie_fact_entity d)}"
    by blast
  from GetFactsAboutEntity_cozo [OF assms(4), of d gen] obtain facts where
    fs: "GetFactsAboutEntity h (cozo_Reader d gen) (Entity.ID e) = Inr facts"
        "set facts = {f \<in> set (mie_fact d). (Fact.ID f, Entity.ID e) \<in> set (mie_fact_entity d)}"
    by blast
  have "e \<in> set entities \<longleftrightarrow> f \<in> set facts"
    using es(2) fs(2) assms(1,2) by simp
  then show ?thesis using es(1) fs(1) by blast
qed

theorem traversal_symmetry_witness:
  "example_fact_current \<in> set (mie_fact example_db)
   \<and> example_entity \<in> set (mie_entity example_db)
   \<and> escapeDatalog example_helpers (Fact.ID example_fact_current) = Fact.ID example_fact_current
   \<and> escapeDatalog example_helpers (Entity.ID example_entity) = Entity.ID example_entity
   \<and> (\<exists>entities facts.
         GetRelatedEntities example_helpers (cozo_Reader example_db None) ''fact:b'' = Inr entities
         \<and> GetFactsAboutEntity example_helpers (cozo_Reader example_db None) ''ent:w'' = Inr facts
         \<and> example_entity \<in> set entities \<and> example_fact_current \<in> set facts)"
proof -
  have f: "example_fact_current \<in> set (mie_fact example_db)"
    by (simp add: example_db_def)
  have e: "example_entity \<in> set (mie_entity example_db)"
    by (simp add: example_db_def)
  have ef: "escapeDatalog example_helpers (Fact.ID example_fact_current) = Fact.ID example_fact_current"
    by (simp add: example_helpers_def)
  have ee: "escapeDatalog example_helpers (Entity.ID example_entity) = Entity.ID example_entity"
    by (simp add: example_helpers_def)
  have edge: "(''fact:b'', ''ent:w'') \<in> set (mie_fact_entity example_db)"
    by (simp add: example_db_def)
  from GetFactsAboutEntity_cozo [OF ee, of example_db None] f edge
  have "\<exists>facts. GetFactsAboutEntity example_helpers (cozo_Reader example_db None) ''ent:w'' = Inr facts
          \<and> example_fact_current \<in> set facts"
    by (auto simp: example_entity_def example_fact_current_def)
  then show ?thesis
    using traversal_symmetry [OF f e ef ee, of None] f e ef ee
    by (auto simp: example_entity_def example_fact_current_def)
qed

text \<open>
  Claim C10. The traversal related_facts, which is facts_about_entity, returns every
  fact joined to the entity through \<open>fact_entity\<close>, whatever its \<open>valid\<close> flag: the
  script carries no condition on \<open>valid\<close>, so an invalidated fact linked to the entity
  is in the result (unlike in semantic and exact search, see C3).
\<close>

theorem traversal_returns_invalidated_facts:
  assumes "f \<in> set (mie_fact d)"
      and "(Fact.ID f, entityID) \<in> set (mie_fact_entity d)"
      and "escapeDatalog h entityID = entityID"
  shows "\<exists>facts. GetRelatedFacts h (cozo_Reader d gen) entityID = Inr facts
           \<and> GetFactsAboutEntity h (cozo_Reader d gen) entityID = Inr facts
           \<and> set facts = {f \<in> set (mie_fact d). (Fact.ID f, entityID) \<in> set (mie_fact_entity d)}
           \<and> f \<in> set facts"
  using GetFactsAboutEntity_cozo [OF assms(3), of d gen] assms(1,2)
  by (auto simp: GetRelatedFacts_def)

theorem traversal_returns_invalidated_facts_witness:
  "example_fact_invalidated \<in> set (mie_fact example_db)
   \<and> (Fact.ID example_fact_invalidated, ''ent:w'') \<in> set (mie_fact_entity example_db)
   \<and> escapeDatalog example_helpers ''ent:w'' = ''ent:w''
   \<and> \<not> Fact.Valid example_fact_invalidated
   \<and> (\<exists>facts. GetRelatedFacts example_helpers (cozo_Reader example_db None) ''ent:w'' = Inr facts
         \<and> example_fact_invalidated \<in> set facts)"
proof -
  have f: "example_fact_invalidated \<in> set (mie_fact example_db)"
    by (simp add: example_db_def)
  have edge: "(Fact.ID example_fact_invalidated, ''ent:w'') \<in> set (mie_fact_entity example_db)"
    by (simp add: example_db_def example_fact_invalidated_def)
  have esc: "escapeDatalog example_helpers ''ent:w'' = ''ent:w''"
    by (simp add: example_helpers_def)
  have inv: "\<not> Fact.Valid example_fact_invalidated"
    by (simp add: example_fact_invalidated_def)
  show ?thesis
    using traversal_returns_invalidated_facts [OF f edge esc, of None] f edge esc inv
    by blast
qed

end
